theory Spec2Isabelle
  imports Complex_Main
begin

section \<open>The program\<close>

text \<open>
  \<^verbatim>\<open>scraper.py\<close> collects the addresses of the movie pages of a catalog from its
  alphabetical index (\<^verbatim>\<open>get_movies_from_letters\<close>), then fetches every movie page and
  assembles a record of it (\<^verbatim>\<open>get_all_movie_data\<close>, \<^verbatim>\<open>get_movie_data\<close>), reading each
  field with a label search (\<^verbatim>\<open>get_movie_value\<close>) and a normalizer.

  The development follows the source function by function.  What lies outside the
  source is a parameter of the functions that use it: the network with the HTML parser
  (\<open>fetch\<close>), the standard output that \<^verbatim>\<open>print\<close> writes to (\<open>stdout\<close>), the date parser
  of \<^verbatim>\<open>dateutil\<close> and the converter of \<^verbatim>\<open>word2number\<close>.  The calls into BeautifulSoup
  and the Python built-ins are written out over a tree of text nodes and tags and over
  strings of 8-bit characters.  A request is taken to return or to raise.
\<close>

section \<open>Exceptions\<close>

text \<open>
  The scraper is Python 2 code.  Every \<^verbatim>\<open>raise\<close> of the source (and of the library
  calls it makes) is a value \<open>Inl e\<close> of a sum type; a normal return is \<open>Inr v\<close>.
\<close>

datatype exn =
    AttributeError | KeyError | IndexError | ValueError | TypeError
  | UnicodeEncodeError | OverflowError | RequestException

section \<open>Python strings\<close>

text \<open>
  A string is a list of 8-bit characters; a character with its top bit set stands for a
  non-ASCII character of a \<^verbatim>\<open>unicode\<close> string.  \<^verbatim>\<open>str(u)\<close> on a \<^verbatim>\<open>unicode\<close> object encodes
  to ASCII and raises \<^verbatim>\<open>UnicodeEncodeError\<close> on any other character; \<^verbatim>\<open>str(None)\<close> is the
  text \<^verbatim>\<open>None\<close>.
\<close>

definition is_ascii :: "char \<Rightarrow> bool" where
  "is_ascii c \<longleftrightarrow> \<not> digit7 c"

fun py_str :: "string option \<Rightarrow> exn + string" where
  "py_str None = Inr ''None''"
| "py_str (Some s) = (if list_all is_ascii s then Inr s else Inl UnicodeEncodeError)"

text \<open>White space as \<^verbatim>\<open>strip()\<close> and \<^verbatim>\<open>split()\<close> see it: tab, line feed, vertical tab, form
  feed, carriage return and space for a byte string, and for a \<^verbatim>\<open>unicode\<close> string also the
  separators \<^verbatim>\<open>0x1C\<close> to \<^verbatim>\<open>0x1F\<close>, \<^verbatim>\<open>0x85\<close> and the no-break space \<^verbatim>\<open>0xA0\<close>.\<close>

definition is_space :: "char \<Rightarrow> bool" where
  "is_space c \<longleftrightarrow> c \<in> set [CHR 0x09, CHR 0x0A, CHR 0x0B, CHR 0x0C, CHR 0x0D, CHR 0x20]"

definition is_uspace :: "char \<Rightarrow> bool" where
  "is_uspace c \<longleftrightarrow> is_space c \<or> c \<in> set [CHR 0x1C, CHR 0x1D, CHR 0x1E, CHR 0x1F, CHR 0x85, CHR 0xA0]"

text \<open>\<^verbatim>\<open>s.strip()\<close> and \<^verbatim>\<open>s.strip(chars)\<close>: drop the characters of the class at both ends.\<close>

definition strip_where :: "(char \<Rightarrow> bool) \<Rightarrow> string \<Rightarrow> string" where
  "strip_where P s = rev (dropWhile P (rev (dropWhile P s)))"

definition py_strip :: "string \<Rightarrow> string" where
  "py_strip s = strip_where is_space s"

definition py_ustrip :: "string \<Rightarrow> string" where
  "py_ustrip s = strip_where is_uspace s"

text \<open>\<^verbatim>\<open>s.lower()\<close> on a byte string.\<close>

definition lower_char :: "char \<Rightarrow> char" where
  "lower_char c =
     (case map_of (zip ''ABCDEFGHIJKLMNOPQRSTUVWXYZ'' ''abcdefghijklmnopqrstuvwxyz'') c of
        Some l \<Rightarrow> l
      | None \<Rightarrow> c)"

definition py_lower :: "string \<Rightarrow> string" where
  "py_lower s = map lower_char s"

text \<open>\<^verbatim>\<open>s.replace(c, '')\<close> for a one-character \<^verbatim>\<open>c\<close>.\<close>

definition remove_char :: "char \<Rightarrow> string \<Rightarrow> string" where
  "remove_char c s = filter (\<lambda>x. x \<noteq> c) s"

text \<open>\<^verbatim>\<open>s.split(c)\<close> for a one-character separator: the pieces between the separators, empty
  pieces included; the result always has a first element.\<close>

fun py_split :: "char \<Rightarrow> string \<Rightarrow> string list" where
  "py_split c [] = [[]]"
| "py_split c (x # xs) =
     (if x = c then [] # py_split c xs
      else (case py_split c xs of w # ws \<Rightarrow> (x # w) # ws | [] \<Rightarrow> [[x]]))"

text \<open>\<^verbatim>\<open>s.split()\<close> on a \<^verbatim>\<open>unicode\<close> string: the maximal runs of characters that are not white
  space.  \<open>cur\<close> holds the run being read, last character first.\<close>

fun split_runs :: "string \<Rightarrow> string \<Rightarrow> string list" where
  "split_runs cur [] = (if cur = [] then [] else [rev cur])"
| "split_runs cur (c # cs) =
     (if is_uspace c then (if cur = [] then split_runs [] cs else rev cur # split_runs [] cs)
      else split_runs (c # cur) cs)"

definition py_split_ws :: "string \<Rightarrow> string list" where
  "py_split_ws s = split_runs [] s"

text \<open>\<^verbatim>\<open>xs[i]\<close> for \<open>i \<ge> 0\<close>: \<^verbatim>\<open>IndexError\<close> beyond the end.\<close>

definition py_index :: "'a list \<Rightarrow> nat \<Rightarrow> exn + 'a" where
  "py_index xs i = (if i < length xs then Inr (xs ! i) else Inl IndexError)"

text \<open>\<^verbatim>\<open>sub in s\<close> on strings: \<open>sub\<close> occurs in \<open>s\<close> as a contiguous block.\<close>

fun startswith :: "string \<Rightarrow> string \<Rightarrow> bool" where
  "startswith [] s = True"
| "startswith (p # ps) [] = False"
| "startswith (p # ps) (c # cs) = (p = c \<and> startswith ps cs)"

fun contains :: "string \<Rightarrow> string \<Rightarrow> bool" where
  "contains sub [] = (sub = [])"
| "contains sub (c # cs) = (startswith sub (c # cs) \<or> contains sub cs)"

text \<open>\<^verbatim>\<open>str(n)\<close> for a non-negative integer: its decimal digits.\<close>

definition digit_char :: "nat \<Rightarrow> char" where
  "digit_char d = ''0123456789'' ! d"

function str_nat :: "nat \<Rightarrow> string" where
  "str_nat n = (if n < 10 then [digit_char n] else str_nat (n div 10) @ [digit_char (n mod 10)])"
  by pat_completeness auto
termination
  by (relation "measure id") auto

section \<open>Python numbers\<close>

definition is_digit :: "char \<Rightarrow> bool" where
  "is_digit c \<longleftrightarrow> c \<in> set ''0123456789''"

definition digit_val :: "char \<Rightarrow> nat" where
  "digit_val c =
     (case map_of (zip ''0123456789'' [0, 1, 2, 3, 4, 5, 6, 7, 8, 9]) c of
        Some d \<Rightarrow> d
      | None \<Rightarrow> 0)"

definition nat_of_digits :: "string \<Rightarrow> nat" where
  "nat_of_digits ds = foldl (\<lambda>a c. 10 * a + digit_val c) 0 ds"

text \<open>An optional sign and then digits, at least one: \<open>Some\<close> of the value.\<close>

definition unsigned_digits :: "string \<Rightarrow> nat option" where
  "unsigned_digits ds = (if ds \<noteq> [] \<and> list_all is_digit ds then Some (nat_of_digits ds) else None)"

fun signed_digits :: "string \<Rightarrow> int option" where
  "signed_digits [] = None"
| "signed_digits (c # cs) =
     (if c = CHR ''-'' then map_option (\<lambda>n. - int n) (unsigned_digits cs)
      else if c = CHR ''+'' then map_option int (unsigned_digits cs)
      else map_option int (unsigned_digits (c # cs)))"

text \<open>\<^verbatim>\<open>int(s)\<close> on a \<^verbatim>\<open>unicode\<close> string, base ten: white space around, an optional sign,
  digits; anything else is a \<^verbatim>\<open>ValueError\<close>.  Python integers are unbounded.\<close>

definition py_int :: "string \<Rightarrow> exn + int" where
  "py_int s = (case signed_digits (py_ustrip s) of None \<Rightarrow> Inl ValueError | Some n \<Rightarrow> Inr n)"

subsection \<open>Floats\<close>

text \<open>
  A \<^verbatim>\<open>float\<close> is an IEEE 754 double: \<open>Finite m e\<close> is the number \<open>m * 2 ^ e\<close>, with
  \<open>\<bar>m\<bar> < 2 ^ 53\<close> and \<open>- 1074 \<le> e\<close>.  Conversion from a decimal literal and multiplication
  round the exact result to the nearest double, ties to the even mantissa, and overflow
  to infinity.
\<close>

datatype pyfloat = Finite int int | Infinity | NaN

function bitlen :: "nat \<Rightarrow> nat" where
  "bitlen n = (if n = 0 then 0 else Suc (bitlen (n div 2)))"
  by pat_completeness auto
termination
  by (relation "measure id") auto

text \<open>\<open>floor_log2 p q\<close>, for positive \<open>p\<close> and \<open>q\<close>: the \<open>e\<close> with \<open>2 ^ e \<le> p / q < 2 ^ (e + 1)\<close>.\<close>

definition floor_log2 :: "nat \<Rightarrow> nat \<Rightarrow> int" where
  "floor_log2 p q =
     (let d = int (bitlen p) - int (bitlen q)
      in if (if 0 \<le> d then q * 2 ^ nat d \<le> p else q \<le> p * 2 ^ nat (- d)) then d else d - 1)"

definition round_half_even :: "nat \<Rightarrow> nat \<Rightarrow> nat" where
  "round_half_even num den =
     (let q = num div den; r = num mod den
      in if 2 * r < den then q else if den < 2 * r then q + 1 else if even q then q else q + 1)"

text \<open>The double nearest to \<open>\<plusminus> p / q\<close> (\<open>neg\<close> for the sign, \<open>q\<close> positive).\<close>

definition double_of_ratio :: "bool \<Rightarrow> nat \<Rightarrow> nat \<Rightarrow> pyfloat" where
  "double_of_ratio neg p q =
     (if p = 0 then Finite 0 0
      else
        let lsb = max (floor_log2 p q - 52) (- 1074);
            m = (if 0 \<le> lsb then round_half_even p (q * 2 ^ nat lsb)
                 else round_half_even (p * 2 ^ nat (- lsb)) q)
        in if 0 \<le> lsb \<and> 2 ^ 1024 \<le> m * 2 ^ nat lsb then Infinity
           else Finite (if neg then - int m else int m) lsb)"

text \<open>A decimal literal \<^verbatim>\<open>digits[.digits][e[sign]digits]\<close> (or \<^verbatim>\<open>.digits\<close>): \<open>Some (n, x)\<close>
  for the number \<open>n * 10 ^ x\<close>.\<close>

definition decimal_exponent :: "string \<Rightarrow> int option" where
  "decimal_exponent r =
     (case r of
        [] \<Rightarrow> Some 0
      | c # t \<Rightarrow> if c = CHR ''e'' \<or> c = CHR ''E'' then signed_digits t else None)"

definition decimal_literal :: "string \<Rightarrow> (nat \<times> int) option" where
  "decimal_literal s =
     (let ip = takeWhile is_digit s;
          r1 = dropWhile is_digit s;
          fp = (case r1 of [] \<Rightarrow> [] | c # t \<Rightarrow> if c = CHR ''.'' then takeWhile is_digit t else []);
          r2 = (case r1 of [] \<Rightarrow> [] | c # t \<Rightarrow> if c = CHR ''.'' then dropWhile is_digit t else r1)
      in if ip @ fp = [] then None
         else (case decimal_exponent r2 of
                 None \<Rightarrow> None
               | Some x \<Rightarrow> Some (nat_of_digits (ip @ fp), x - int (length fp))))"

definition unsigned_float :: "bool \<Rightarrow> string \<Rightarrow> exn + pyfloat" where
  "unsigned_float neg s =
     (if py_lower s = ''inf'' \<or> py_lower s = ''infinity'' then Inr Infinity
      else if py_lower s = ''nan'' then Inr NaN
      else (case decimal_literal s of
              None \<Rightarrow> Inl ValueError
            | Some (n, x) \<Rightarrow>
                Inr (if 0 \<le> x then double_of_ratio neg (n * 10 ^ nat x) 1
                     else double_of_ratio neg n (10 ^ nat (- x)))))"

text \<open>\<^verbatim>\<open>float(s)\<close> on a \<^verbatim>\<open>unicode\<close> string.\<close>

definition py_float :: "string \<Rightarrow> exn + pyfloat" where
  "py_float s =
     (case py_ustrip s of
        [] \<Rightarrow> Inl ValueError
      | c # cs \<Rightarrow>
          if c = CHR ''-'' then unsigned_float True cs
          else if c = CHR ''+'' then unsigned_float False cs
          else unsigned_float False (c # cs))"

text \<open>\<^verbatim>\<open>f * k\<close> for a float \<open>f\<close> and a positive integer \<open>k\<close> that is itself a double.\<close>

fun float_times :: "pyfloat \<Rightarrow> nat \<Rightarrow> pyfloat" where
  "float_times (Finite m e) k =
     (if 0 \<le> e then double_of_ratio (m < 0) (nat \<bar>m\<bar> * k * 2 ^ nat e) 1
      else double_of_ratio (m < 0) (nat \<bar>m\<bar> * k) (2 ^ nat (- e)))"
| "float_times Infinity k = Infinity"
| "float_times NaN k = NaN"

text \<open>\<^verbatim>\<open>int(f)\<close>: truncation towards zero; \<^verbatim>\<open>OverflowError\<close> on an infinity, \<^verbatim>\<open>ValueError\<close> on a
  NaN.\<close>

fun int_of_float :: "pyfloat \<Rightarrow> exn + int" where
  "int_of_float (Finite m e) =
     Inr (if 0 \<le> e then m * 2 ^ nat e
          else if 0 \<le> m then m div 2 ^ nat (- e)
          else - ((- m) div 2 ^ nat (- e)))"
| "int_of_float Infinity = Inl OverflowError"
| "int_of_float NaN = Inl ValueError"

section \<open>Exceptions in sequence\<close>

text \<open>\<open>bind_exn m f\<close>: evaluate \<open>m\<close>; an exception ends the computation, a value goes on
  to \<open>f\<close>.  \<open>try_except body d\<close>: \<^verbatim>\<open>try: return body\<close> \<^verbatim>\<open>except: return d\<close>, a handler that
  catches every exception.\<close>

definition bind_exn :: "exn + 'a \<Rightarrow> ('a \<Rightarrow> exn + 'b) \<Rightarrow> exn + 'b" where
  "bind_exn m f = (case m of Inl e \<Rightarrow> Inl e | Inr v \<Rightarrow> f v)"

definition try_except :: "exn + 'a \<Rightarrow> 'a \<Rightarrow> exn + 'a" where
  "try_except body d = (case body of Inl e \<Rightarrow> Inr d | Inr v \<Rightarrow> Inr v)"

text \<open>A method call on an object that may be \<^verbatim>\<open>None\<close>: \<^verbatim>\<open>None\<close> has no string method, the
  attribute access raises \<^verbatim>\<open>AttributeError\<close>.\<close>

definition as_string :: "string option \<Rightarrow> exn + string" where
  "as_string x = (case x of None \<Rightarrow> Inl AttributeError | Some s \<Rightarrow> Inr s)"

section \<open>Parsed documents\<close>

text \<open>
  A BeautifulSoup tree: a text node (\<^verbatim>\<open>NavigableString\<close>) or a tag with its name, its
  attribute dictionary and its children.  The soup object itself is the tag
  \<^verbatim>\<open>[document]\<close> whose children are the top-level nodes.
\<close>

datatype node = Text string | Tag string "(string \<times> string) list" "node list"

fun is_tag :: "node \<Rightarrow> bool" where
  "is_tag (Tag n a cs) = True"
| "is_tag (Text s) = False"

fun tag_name :: "node \<Rightarrow> string option" where
  "tag_name (Tag n a cs) = Some n"
| "tag_name (Text s) = None"

fun attr :: "node \<Rightarrow> string \<Rightarrow> string option" where
  "attr (Tag n a cs) k = map_of a k"
| "attr (Text s) k = None"

fun children :: "node \<Rightarrow> node list" where
  "children (Tag n a cs) = cs"
| "children (Text s) = []"

text \<open>
  An element of a parsed tree knows its place in it (\<^verbatim>\<open>.next_sibling\<close>, \<^verbatim>\<open>.next_element\<close>).
  \<open>elements ns\<close> lists every node of the forest \<open>ns\<close> in document order, each with
  its later siblings; the nodes after an entry of the list are the nodes after it in
  document order.
\<close>

fun elements :: "node list \<Rightarrow> (node \<times> node list) list" where
  "elements [] = []"
| "elements (Text s # ns) = (Text s, ns) # elements ns"
| "elements (Tag n a cs # ns) = (Tag n a cs, ns) # elements cs @ elements ns"

text \<open>\<^verbatim>\<open>.descendants\<close>: every node below a tag, in document order (the tag itself excluded).\<close>

definition descendants :: "node \<Rightarrow> node list" where
  "descendants t = map fst (elements (children t))"

text \<open>\<^verbatim>\<open>t.find(name)\<close>, \<^verbatim>\<open>t.find(id=v)\<close> and \<^verbatim>\<open>t.find_all(name)\<close>: the first, or all, of the
  descendant tags that match, in document order.\<close>

definition find_name :: "string \<Rightarrow> node \<Rightarrow> node option" where
  "find_name nm t = List.find (\<lambda>d. tag_name d = Some nm) (descendants t)"

definition find_id :: "string \<Rightarrow> node \<Rightarrow> node option" where
  "find_id v t = List.find (\<lambda>d. attr d ''id'' = Some v) (descendants t)"

definition find_all_name :: "string \<Rightarrow> node \<Rightarrow> node list" where
  "find_all_name nm t = filter (\<lambda>d. tag_name d = Some nm) (descendants t)"


text \<open>\<^verbatim>\<open>.stripped_strings\<close>: the text nodes below a tag, stripped, the empty ones left out;
  \<^verbatim>\<open>.get_text()\<close>: the text nodes below a tag, joined.\<close>

fun node_strings :: "node list \<Rightarrow> string list" where
  "node_strings [] = []"
| "node_strings (Text s # ns) = s # node_strings ns"
| "node_strings (Tag n a cs # ns) = node_strings ns"

definition stripped_strings :: "node \<Rightarrow> string list" where
  "stripped_strings t = filter (\<lambda>s. s \<noteq> []) (map py_ustrip (node_strings (descendants t)))"

definition get_text :: "node \<Rightarrow> string" where
  "get_text t = concat (node_strings (descendants t))"

section \<open>The label-value locator\<close>

text \<open>
  \<^verbatim>\<open>soup.find(text=re.compile(field_name))\<close>: the first text node, in document order, on
  which the pattern's \<^verbatim>\<open>search\<close> succeeds (\<^verbatim>\<open>find\<close> passes over an empty string).  The
  pattern is the predicate \<open>pat\<close>.  The result is the node as bs4 hands it out: its text,
  with its later siblings and the nodes after it in document order.
\<close>

fun find_string ::
  "(string \<Rightarrow> bool) \<Rightarrow> (node \<times> node list) list \<Rightarrow> (string \<times> node list \<times> node list) option" where
  "find_string pat [] = None"
| "find_string pat ((Text s, sibs) # rest) =
     (if s \<noteq> [] \<and> pat s then Some (s, sibs, map fst rest) else find_string pat rest)"
| "find_string pat ((Tag n a cs, sibs) # rest) = find_string pat rest"

text \<open>A field name without regular-expression operators matches where it occurs.\<close>

definition re_search :: "string \<Rightarrow> string \<Rightarrow> bool" where
  "re_search field_name s = contains field_name s"

text \<open>
  \<^verbatim>\<open>get_movie_value(soup, field_name, is_people)\<close>.  \<^verbatim>\<open>findNextSibling()\<close> and \<^verbatim>\<open>findNext()\<close>
  without arguments give the first tag among the later siblings and the first tag
  among the later nodes; a tag is always true.  The flag \<^verbatim>\<open>is_people\<close> chooses what is
  returned of the tag found, and with it the type of the result: \<open>as\<close> is that choice.
\<close>

definition get_movie_value_as ::
  "(node \<Rightarrow> 'a) \<Rightarrow> node \<Rightarrow> (string \<Rightarrow> bool) \<Rightarrow> 'a option" where
  "get_movie_value_as as soup pat =
     (case find_string pat (elements (children soup)) of
        None \<Rightarrow> None
      | Some (obj, next_siblings, next_elements) \<Rightarrow>
          if obj = [] then None
          else
            (case List.find is_tag next_siblings of
               Some next_sibling \<Rightarrow> Some (as next_sibling)
             | None \<Rightarrow>
                 (case List.find is_tag next_elements of
                    Some next_obj \<Rightarrow> Some (as next_obj)
                  | None \<Rightarrow> None)))"

text \<open>\<^verbatim>\<open>is_people=False\<close>: the text of the tag.  \<^verbatim>\<open>is_people=True\<close>: the tag itself.\<close>

definition get_movie_value :: "node \<Rightarrow> (string \<Rightarrow> bool) \<Rightarrow> string option" where
  "get_movie_value soup pat = get_movie_value_as get_text soup pat"

definition get_movie_value_people :: "node \<Rightarrow> (string \<Rightarrow> bool) \<Rightarrow> node option" where
  "get_movie_value_people soup pat = get_movie_value_as (\<lambda>t. t) soup pat"

section \<open>Value normalizers\<close>

text \<open>
  The raw value of a field is \<^verbatim>\<open>None\<close> or a \<^verbatim>\<open>unicode\<close> string (\<open>string option\<close>); for the
  lists of people it is \<^verbatim>\<open>None\<close> or a tag.  Each normalizer is one \<^verbatim>\<open>try\<close> block with a
  bare \<^verbatim>\<open>except\<close>.  The values they produce:
\<close>

datatype datetime = Datetime int int int int int int

datatype pyval = PNone | PStr string | PInt int | PList "string list" | PDate datetime

definition clean_title :: "string option \<Rightarrow> exn + pyval" where
  "clean_title titlestring =
     try_except
       (bind_exn (as_string titlestring) (\<lambda>s.
        bind_exn (py_index (py_split CHR ''('' s) 0) (\<lambda>head.
        bind_exn (py_str (Some head)) (\<lambda>b.
        Inr (PStr (py_strip b))))))
       PNone"

text \<open>\<^verbatim>\<open>dateutil.parser.parse\<close> is a parameter: the date it reads, or the exception it
  raises.\<close>

definition to_date :: "(string \<Rightarrow> exn + datetime) \<Rightarrow> string option \<Rightarrow> exn + pyval" where
  "to_date dateutil_parse datestring =
     try_except
       (bind_exn (as_string datestring) (\<lambda>s.
        bind_exn (dateutil_parse (py_ustrip s)) (\<lambda>date.
        Inr (PDate date))))
       PNone"

definition money_to_int :: "string option \<Rightarrow> exn + pyval" where
  "money_to_int moneystring =
     try_except
       (bind_exn (as_string moneystring) (\<lambda>s.
        bind_exn (py_int (remove_char CHR '','' (remove_char CHR ''$'' s))) (\<lambda>n.
        Inr (PInt n))))
       PNone"

definition vals_dict :: "string \<Rightarrow> nat option" where
  "vals_dict = map_of [(''thousand'', 1000), (''million'', 1000000), (''billion'', 1000000000)]"

definition dict_get :: "('k \<Rightarrow> 'v option) \<Rightarrow> 'k \<Rightarrow> exn + 'v" where
  "dict_get d k = (case d k of None \<Rightarrow> Inl KeyError | Some v \<Rightarrow> Inr v)"

definition budget_to_int :: "string option \<Rightarrow> exn + pyval" where
  "budget_to_int budgetstring =
     try_except
       (bind_exn (as_string budgetstring) (\<lambda>s.
        let budget_val_list = py_split CHR '' '' (remove_char CHR ''$'' s) in
        bind_exn (py_index budget_val_list 0) (\<lambda>number.
        bind_exn (py_float number) (\<lambda>f.
        bind_exn (py_index budget_val_list 1) (\<lambda>word.
        bind_exn (dict_get vals_dict word) (\<lambda>scale.
        bind_exn (int_of_float (float_times f scale)) (\<lambda>budget.
        Inr (PInt budget))))))))
       PNone"

text \<open>The comprehension
  \<^verbatim>\<open>[str(person.strip('*')) for person in peopleobj.stripped_strings if '(' not in person]\<close>.\<close>

fun people_names :: "string list \<Rightarrow> exn + string list" where
  "people_names [] = Inr []"
| "people_names (person # rest) =
     (if CHR ''('' \<in> set person then people_names rest
      else bind_exn (py_str (Some (strip_where (\<lambda>c. c = CHR ''*'') person))) (\<lambda>name.
           bind_exn (people_names rest) (\<lambda>names.
           Inr (name # names))))"

definition people_to_list :: "node option \<Rightarrow> exn + pyval" where
  "people_to_list peopleobj =
     (case peopleobj of
        None \<Rightarrow> Inr PNone
      | Some t \<Rightarrow>
          try_except
            (bind_exn (people_names (stripped_strings t)) (\<lambda>people_list. Inr (PList people_list)))
            PNone)"

text \<open>\<^verbatim>\<open>w2n.word_to_num\<close> is a parameter: the number it reads from a word, or the exception
  it raises.\<close>

definition noms_from_oscars :: "(string \<Rightarrow> exn + pyval) \<Rightarrow> string option \<Rightarrow> exn + pyval" where
  "noms_from_oscars word_to_num oscarsstring =
     try_except
       (bind_exn (as_string oscarsstring) (\<lambda>s.
        bind_exn (py_index (py_split CHR '','' s) 0) (\<lambda>clause.
        bind_exn (py_str (Some clause)) (\<lambda>b.
        let nominations_str = py_split CHR '' '' (py_lower (py_strip b)) in
        bind_exn (py_index nominations_str 2) (\<lambda>word.
        word_to_num word)))))
       (PInt 0)"

definition wins_from_oscars :: "(string \<Rightarrow> exn + pyval) \<Rightarrow> string option \<Rightarrow> exn + pyval" where
  "wins_from_oscars word_to_num oscarsstring =
     try_except
       (bind_exn (as_string oscarsstring) (\<lambda>s.
        bind_exn (py_index (py_split CHR '','' s) 1) (\<lambda>clause.
        bind_exn (py_str (Some clause)) (\<lambda>b.
        let wins_str = py_split CHR '' '' (py_lower (py_strip (remove_char CHR ''.'' b))) in
        bind_exn (py_index wins_str 1) (\<lambda>word.
        word_to_num word)))))
       (PInt 0)"

definition theaters_to_int :: "string option \<Rightarrow> exn + pyval" where
  "theaters_to_int theaterstring =
     try_except
       (bind_exn (as_string theaterstring) (\<lambda>s.
        bind_exn (py_index (py_split CHR '' '' (remove_char CHR '','' (py_ustrip s))) 0) (\<lambda>theaters.
        bind_exn (py_int theaters) (\<lambda>n.
        Inr (PInt n)))))
       PNone"

definition runtime_to_minutes :: "string option \<Rightarrow> exn + pyval" where
  "runtime_to_minutes runtimestring =
     try_except
       (bind_exn (as_string runtimestring) (\<lambda>s.
        let runtime = py_split_ws s in
        bind_exn (py_index runtime 0) (\<lambda>hours.
        bind_exn (py_int hours) (\<lambda>h.
        bind_exn (py_index runtime 2) (\<lambda>mins.
        bind_exn (py_int mins) (\<lambda>m.
        Inr (PInt (h * 60 + m))))))))
       PNone"

section \<open>The record of one movie page\<close>

definition headers :: "string list" where
  "headers = [''1-title'', ''rating'', ''genre'', ''distributor'', ''theaters'', ''budget'',
     ''dom_total_gross'', ''intl_total_gross'', ''oscar_noms'', ''oscar_wins'', ''2-release_date'',
     ''3-closing_date'', ''runtime_(mins)'', ''director'', ''writers'', ''actors'', ''producers'']"

text \<open>
  \<^verbatim>\<open>get_movie_data\<close> has no \<^verbatim>\<open>try\<close> of its own.  \<^verbatim>\<open>soup.find('title').text\<close> raises
  \<^verbatim>\<open>AttributeError\<close> on a page without a title, and the three \<^verbatim>\<open>str(...)\<close> of raw values
  raise on a non-ASCII character.  The dictionary is a map from the header to the value.
\<close>

definition get_movie_data ::
  "(string \<Rightarrow> exn + datetime) \<Rightarrow> (string \<Rightarrow> exn + pyval) \<Rightarrow> node \<Rightarrow> exn + (string \<Rightarrow> pyval option)" where
  "get_movie_data dateutil_parse word_to_num soup =
     bind_exn (case find_name ''title'' soup of None \<Rightarrow> Inl AttributeError | Some t \<Rightarrow> Inr (get_text t))
       (\<lambda>raw_title.
     bind_exn (clean_title (Some raw_title)) (\<lambda>title.
     bind_exn (py_str (get_movie_value soup (re_search ''MPAA Rating''))) (\<lambda>rating.
     bind_exn (py_str (get_movie_value soup (re_search ''Genre:''))) (\<lambda>genre.
     bind_exn (py_str (get_movie_value soup (re_search ''Distributor''))) (\<lambda>distributor.
     bind_exn (theaters_to_int (get_movie_value soup (re_search ''Widest''))) (\<lambda>theaters.
     bind_exn (budget_to_int (get_movie_value soup (re_search ''Production''))) (\<lambda>budget.
     bind_exn (money_to_int (get_movie_value soup (re_search ''Domestic Total''))) (\<lambda>domestic_total_gross.
     bind_exn (money_to_int (get_movie_value soup (re_search ''Worldwide''))) (\<lambda>intl_total_gross.
     bind_exn (noms_from_oscars word_to_num (get_movie_value soup (re_search ''Academy Awards''))) (\<lambda>oscar_noms.
     bind_exn (wins_from_oscars word_to_num (get_movie_value soup (re_search ''Academy Awards''))) (\<lambda>oscar_wins.
     bind_exn (to_date dateutil_parse (get_movie_value soup (re_search ''Release Date''))) (\<lambda>release_date.
     bind_exn (to_date dateutil_parse (get_movie_value soup (re_search ''Close''))) (\<lambda>closing_date.
     bind_exn (runtime_to_minutes (get_movie_value soup (re_search ''Runtime''))) (\<lambda>runtime.
     bind_exn (people_to_list (get_movie_value_people soup (re_search ''Director''))) (\<lambda>director.
     bind_exn (people_to_list (get_movie_value_people soup (re_search ''Writer''))) (\<lambda>writers.
     bind_exn (people_to_list (get_movie_value_people soup (re_search ''Actor''))) (\<lambda>actors.
     bind_exn (people_to_list (get_movie_value_people soup (re_search ''Producer''))) (\<lambda>producers.
     Inr (map_of (zip headers
       [title, PStr rating, PStr genre, PStr distributor, theaters, budget, domestic_total_gross,
        intl_total_gross, oscar_noms, oscar_wins, release_date, closing_date, runtime,
        director, writers, actors, producers]))))))))))))))))))))"

section \<open>The network\<close>

text \<open>
  \<^verbatim>\<open>get_movie_page(url)\<close> performs an HTTP request and parses the answer; it has no
  \<^verbatim>\<open>try\<close>.  The network is a parameter: \<open>fetch url w\<close> gives the parsed page or the
  exception raised, and the next state of the outside world.  A network may answer the
  same address differently from one request to the next.
\<close>

type_synonym 'w fetcher = "string \<Rightarrow> 'w \<Rightarrow> (exn + node) \<times> 'w"

definition get_movie_page :: "'w fetcher \<Rightarrow> string \<Rightarrow> 'w \<Rightarrow> (exn + node) \<times> 'w" where
  [simp]: "get_movie_page fetch url w = fetch url w"

section \<open>Index pages\<close>

text \<open>
  \<^verbatim>\<open>[tag['href'] for tag in body.find_all('a') if 'movies/?id' in tag['href']]\<close>:
  \<^verbatim>\<open>tag['href']\<close> raises \<^verbatim>\<open>KeyError\<close> on an anchor without that attribute, which aborts
  the whole comprehension.
\<close>

fun movie_hrefs :: "node list \<Rightarrow> exn + string list" where
  "movie_hrefs [] = Inr []"
| "movie_hrefs (t # ts) =
     (case attr t ''href'' of
        None \<Rightarrow> Inl KeyError
      | Some h \<Rightarrow>
          (case movie_hrefs ts of
             Inl e \<Rightarrow> Inl e
           | Inr hs \<Rightarrow> Inr (if contains ''movies/?id'' h then h # hs else hs)))"

text \<open>\<^verbatim>\<open>get_movies_on_page\<close>: \<^verbatim>\<open>soup.body\<close> is \<^verbatim>\<open>soup.find('body')\<close>; a \<^verbatim>\<open>None\<close> from either
  \<^verbatim>\<open>find\<close> makes the next attribute access raise \<^verbatim>\<open>AttributeError\<close>.\<close>

definition get_movies_on_page :: "node \<Rightarrow> exn + string list" where
  "get_movies_on_page soup =
     (case find_name ''body'' soup of
        None \<Rightarrow> Inl AttributeError
      | Some b \<Rightarrow>
          (case find_id ''body'' b of
             None \<Rightarrow> Inl AttributeError
           | Some body \<Rightarrow>
               (case movie_hrefs (find_all_name ''a'' body) of
                  Inl e \<Rightarrow> Inl e
                | Inr movies_on_page \<Rightarrow> Inr ([] @ movies_on_page))))"


section \<open>The crawl over the index\<close>

definition index_url :: "string \<Rightarrow> nat \<Rightarrow> string" where
  "index_url letter page =
     ''http://www.boxofficemojo.com/movies/alphabetical.htm?letter='' @ letter @ ''&page='' @ str_nat page"

text \<open>
  The \<^verbatim>\<open>while True\<close> loop of one letter.  Its only exit is the \<^verbatim>\<open>break\<close> on a page with no
  movie link; an exception leaves it (and the whole function) as \<open>Inl\<close>.  \<open>None\<close> is
  the loop that never ends.
\<close>

partial_function (option) letter_pages ::
  "'w fetcher \<Rightarrow> string \<Rightarrow> nat \<Rightarrow> string list \<Rightarrow> 'w \<Rightarrow> ((exn + string list) \<times> 'w) option" where
  "letter_pages fetch letter page all_movie_urls w =
     (case get_movie_page fetch (index_url letter page) w of
        (Inl e, w') \<Rightarrow> Some (Inl e, w')
      | (Inr page_soup, w') \<Rightarrow>
          (case get_movies_on_page page_soup of
             Inl e \<Rightarrow> Some (Inl e, w')
           | Inr movie_urls \<Rightarrow>
               if length movie_urls = 0 then Some (Inr (all_movie_urls @ movie_urls), w')
               else letter_pages fetch letter (page + 1) (all_movie_urls @ movie_urls) w'))"

text \<open>The \<^verbatim>\<open>for letter in letter_list\<close> loop, with the accumulator \<^verbatim>\<open>all_movie_urls\<close>.\<close>

fun letters_loop ::
  "'w fetcher \<Rightarrow> string list \<Rightarrow> string list \<Rightarrow> 'w \<Rightarrow> ((exn + string list) \<times> 'w) option" where
  "letters_loop fetch [] all_movie_urls w = Some (Inr all_movie_urls, w)"
| "letters_loop fetch (letter # rest) all_movie_urls w =
     (case letter_pages fetch letter 1 all_movie_urls w of
        None \<Rightarrow> None
      | Some (Inl e, w') \<Rightarrow> Some (Inl e, w')
      | Some (Inr urls, w') \<Rightarrow> letters_loop fetch rest urls w')"

definition get_movies_from_letters ::
  "'w fetcher \<Rightarrow> string list \<Rightarrow> 'w \<Rightarrow> ((exn + string list) \<times> 'w) option" where
  "get_movies_from_letters fetch letter_list w = letters_loop fetch letter_list [] w"

section \<open>Processing the list of movie pages\<close>

definition movie_url :: "string \<Rightarrow> string" where
  "movie_url movie = ''http://www.boxofficemojo.com'' @ movie"

text \<open>The body of the \<^verbatim>\<open>try\<close> for one entry of the list: fetch, assemble, and add the
  reference \<^verbatim>\<open>movie.split("=")[1]\<close> to the dictionary.\<close>

definition movie_entry ::
  "(string \<Rightarrow> exn + datetime) \<Rightarrow> (string \<Rightarrow> exn + pyval) \<Rightarrow> string \<Rightarrow> exn + node \<Rightarrow>
   exn + (string \<Rightarrow> pyval option)" where
  "movie_entry dateutil_parse word_to_num movie page =
     bind_exn page (\<lambda>soup.
     bind_exn (get_movie_data dateutil_parse word_to_num soup) (\<lambda>data_dict.
     bind_exn (py_index (py_split CHR ''='' movie) 1) (\<lambda>ref.
     Inr (data_dict(''url'' \<mapsto> PStr ref)))))"

text \<open>
  The two \<^verbatim>\<open>print\<close> statements write the line to the standard output.  The address is
  \<^verbatim>\<open>url_prefix + movie\<close>; for an entry that is a \<^verbatim>\<open>unicode\<close> string (the references
  collected from the index pages are) the line is a \<^verbatim>\<open>unicode\<close> string too, which
  \<^verbatim>\<open>print\<close> encodes with the encoding of the standard output and which raises
  \<^verbatim>\<open>UnicodeEncodeError\<close> where that encoding has no code for one of its characters.  The
  standard output is a parameter: what writing a line gives, nothing or an exception.
\<close>

type_synonym printer = "string \<Rightarrow> exn + unit"

text \<open>
  \<^verbatim>\<open>get_all_movie_data\<close>: the \<^verbatim>\<open>for\<close> loop with its two lists.  The bare \<^verbatim>\<open>except\<close> first
  prints its line and then appends the address to \<^verbatim>\<open>failed_urls\<close>; neither that
  \<^verbatim>\<open>print\<close> nor the one after the \<^verbatim>\<open>try\<close> statement is guarded, so an exception of
  either ends the function, and the two lists are not returned.
\<close>

fun movies_loop ::
  "'w fetcher \<Rightarrow> printer \<Rightarrow> (string \<Rightarrow> exn + datetime) \<Rightarrow> (string \<Rightarrow> exn + pyval) \<Rightarrow>
   string list \<Rightarrow> (string \<Rightarrow> pyval option) list \<Rightarrow> string list \<Rightarrow> 'w \<Rightarrow>
   (exn + (string \<Rightarrow> pyval option) list \<times> string list) \<times> 'w" where
  "movies_loop fetch stdout dateutil_parse word_to_num [] all_movie_data failed_urls w =
     (Inr (all_movie_data, failed_urls), w)"
| "movies_loop fetch stdout dateutil_parse word_to_num (movie # rest) all_movie_data failed_urls w =
     (case get_movie_page fetch (movie_url movie) w of
        (page, w') \<Rightarrow>
          (case (case movie_entry dateutil_parse word_to_num movie page of
                   Inr data_dict \<Rightarrow> Inr (all_movie_data @ [data_dict], failed_urls)
                 | Inl e \<Rightarrow>
                     bind_exn (stdout (''error processing url: '' @ movie_url movie)) (\<lambda>u.
                     Inr (all_movie_data, failed_urls @ [movie_url movie]))) of
             Inl e \<Rightarrow> (Inl e, w')
           | Inr (all_movie_data', failed_urls') \<Rightarrow>
               (case stdout (''processed: '' @ movie_url movie) of
                  Inl e \<Rightarrow> (Inl e, w')
                | Inr u \<Rightarrow>
                    movies_loop fetch stdout dateutil_parse word_to_num rest
                      all_movie_data' failed_urls' w')))"

definition get_all_movie_data ::
  "'w fetcher \<Rightarrow> printer \<Rightarrow> (string \<Rightarrow> exn + datetime) \<Rightarrow> (string \<Rightarrow> exn + pyval) \<Rightarrow>
   string list \<Rightarrow> 'w \<Rightarrow> (exn + (string \<Rightarrow> pyval option) list \<times> string list) \<times> 'w" where
  "get_all_movie_data fetch stdout dateutil_parse word_to_num url_list w =
     movies_loop fetch stdout dateutil_parse word_to_num url_list [] [] w"

section \<open>Vocabulary for the statements\<close>

subsection \<open>The locator\<close>

text \<open>The vocabulary for statements about the locator: a text node that the search accepts,
  and the first tag of a list of nodes.\<close>

fun matching :: "(string \<Rightarrow> bool) \<Rightarrow> node \<Rightarrow> bool" where
  "matching pat (Text s) = (s \<noteq> [] \<and> pat s)"
| "matching pat (Tag n a cs) = False"

definition first_tag :: "node list \<Rightarrow> node option" where
  "first_tag ns = (case filter is_tag ns of [] \<Rightarrow> None | t # ts \<Rightarrow> Some t)"

subsection \<open>The award sentences\<close>



subsection \<open>A fixed catalog\<close>

text \<open>
  The statements about the crawl are made over a catalog that answers every address the
  same way each time it is asked; the state of the world is then the number of requests
  made so far.
\<close>

definition static_fetch :: "(string \<Rightarrow> exn + node) \<Rightarrow> nat fetcher" where
  "static_fetch site url n = (site url, Suc n)"

text \<open>What the crawl sees of page \<open>page\<close> of a letter: the links, or the exception of the
  fetch or of \<^verbatim>\<open>get_movies_on_page\<close>.\<close>

definition page_links :: "(string \<Rightarrow> exn + node) \<Rightarrow> string \<Rightarrow> nat \<Rightarrow> exn + string list" where
  "page_links site letter page =
     (case site (index_url letter page) of Inl e \<Rightarrow> Inl e | Inr soup \<Rightarrow> get_movies_on_page soup)"

text \<open>The links of a page, and of the first \<open>k\<close> pages of a letter, in page order.\<close>

definition page_urls :: "(string \<Rightarrow> exn + node) \<Rightarrow> string \<Rightarrow> nat \<Rightarrow> string list" where
  "page_urls site letter page = (case page_links site letter page of Inl e \<Rightarrow> [] | Inr us \<Rightarrow> us)"

text \<open>A page that was fetched and parsed without an exception and carries at least one
  movie link.\<close>

fun has_links :: "exn + string list \<Rightarrow> bool" where
  "has_links (Inr (u # us)) = True"
| "has_links (Inr []) = False"
| "has_links (Inl e) = False"

text \<open>\<open>stops_after site letter p k\<close>: counted from page \<open>p\<close>, the first \<open>k\<close> pages of the
  letter have links and the next one is the first page with none.\<close>

definition stops_after :: "(string \<Rightarrow> exn + node) \<Rightarrow> string \<Rightarrow> nat \<Rightarrow> nat \<Rightarrow> bool" where
  "stops_after site letter p k \<longleftrightarrow>
     page_links site letter (p + k) = Inr [] \<and>
     (\<forall>j\<in>{0..<k}. has_links (page_links site letter (p + j)))"

text \<open>\<open>endless site letter\<close>: every page of the letter has links.\<close>

definition endless :: "(string \<Rightarrow> exn + node) \<Rightarrow> string \<Rightarrow> bool" where
  "endless site letter \<longleftrightarrow> (\<forall>j. has_links (page_links site letter (1 + j)))"

definition letter_urls :: "(string \<Rightarrow> exn + node) \<Rightarrow> string \<Rightarrow> nat \<Rightarrow> string list" where
  "letter_urls site letter k = concat (map (page_urls site letter) [1..<1 + k])"


subsection \<open>The outcomes of the movie pages\<close>

text \<open>The outcome of every entry of the list of addresses, in order: the dictionary, or the
  exception that the \<^verbatim>\<open>try\<close> block caught.\<close>

fun movie_results ::
  "'w fetcher \<Rightarrow> (string \<Rightarrow> exn + datetime) \<Rightarrow> (string \<Rightarrow> exn + pyval) \<Rightarrow> string list \<Rightarrow> 'w \<Rightarrow>
   (exn + (string \<Rightarrow> pyval option)) list" where
  "movie_results fetch dateutil_parse word_to_num [] w = []"
| "movie_results fetch dateutil_parse word_to_num (movie # rest) w =
     (case get_movie_page fetch (movie_url movie) w of
        (page, w') \<Rightarrow>
          movie_entry dateutil_parse word_to_num movie page #
          movie_results fetch dateutil_parse word_to_num rest w')"

text \<open>The dictionaries among the outcomes, and the addresses of the entries whose outcome
  is an exception.\<close>

fun records_of :: "(exn + 'a) list \<Rightarrow> 'a list" where
  "records_of [] = []"
| "records_of (Inr d # rs) = d # records_of rs"
| "records_of (Inl e # rs) = records_of rs"

fun failures_of :: "string list \<Rightarrow> (exn + 'a) list \<Rightarrow> string list" where
  "failures_of (movie # rest) (Inl e # rs) = movie_url movie # failures_of rest rs"
| "failures_of (movie # rest) (Inr d # rs) = failures_of rest rs"
| "failures_of [] rs = []"
| "failures_of (movie # rest) [] = []"

text \<open>The lines that the loop writes for the entries, in order: for an entry whose outcome
  is an exception the line of the handler and then the line after the \<^verbatim>\<open>try\<close>
  statement, for the others that line alone.\<close>

fun printed_lines :: "string list \<Rightarrow> (exn + 'a) list \<Rightarrow> string list" where
  "printed_lines (movie # rest) (Inl e # rs) =
     (''error processing url: '' @ movie_url movie) # (''processed: '' @ movie_url movie) #
     printed_lines rest rs"
| "printed_lines (movie # rest) (Inr d # rs) =
     (''processed: '' @ movie_url movie) # printed_lines rest rs"
| "printed_lines [] rs = []"
| "printed_lines (movie # rest) [] = []"

text \<open>The standard output takes every one of these lines.\<close>

definition prints_return :: "printer \<Rightarrow> string list \<Rightarrow> (exn + 'a) list \<Rightarrow> bool" where
  "prints_return stdout url_list rs = list_all (\<lambda>line. stdout line = Inr ()) (printed_lines url_list rs)"


section \<open>Samples\<close>

subsection \<open>Catalogs\<close>

text \<open>An index page with one movie link (and one other link), and one with none.\<close>

definition link_page :: node where
  "link_page = Tag ''[document]'' [] [Tag ''html'' [] [Tag ''body'' []
     [Tag ''div'' [(''id'', ''body'')]
        [Tag ''a'' [(''href'', ''/movies/?id=avatar.htm'')] [Text ''Avatar''],
         Tag ''a'' [(''href'', ''/about/'')] [Text ''About'']]]]]"

definition empty_page :: node where
  "empty_page = Tag ''[document]'' [] [Tag ''html'' [] [Tag ''body'' []
     [Tag ''div'' [(''id'', ''body'')] [Tag ''a'' [(''href'', ''/about/'')] [Text ''About'']]]]]"

text \<open>Every page of every letter lists the movie.\<close>

definition endless_site :: "string \<Rightarrow> exn + node" where
  "endless_site url = Inr link_page"


text \<open>Letter A has one page of links, letter B has none at all.\<close>

definition small_site :: "string \<Rightarrow> exn + node" where
  "small_site url = (if url = index_url ''A'' 1 then Inr link_page else Inr empty_page)"

text \<open>Letter A is empty; page 1 of letter B has links and the request for its page 2 fails.\<close>

definition broken_site :: "string \<Rightarrow> exn + node" where
  "broken_site url =
     (if url = index_url ''B'' 1 then Inr link_page
      else if url = index_url ''B'' 2 then Inl RequestException
      else Inr empty_page)"

text \<open>A network whose first request fails and whose later requests all succeed.\<close>

definition flaky_fetch :: "nat fetcher" where
  "flaky_fetch url n = (if n = 0 then Inl RequestException else Inr empty_page, Suc n)"

subsection \<open>Libraries and pages\<close>

text \<open>A date parser that reads no date.\<close>

definition reject_dates :: "string \<Rightarrow> exn + datetime" where
  "reject_dates s = Inl ValueError"

text \<open>\<^verbatim>\<open>word_to_num\<close> on a single word: a string of digits is its number, a number word
  is its value, any other word raises \<^verbatim>\<open>ValueError\<close>.\<close>

definition number_words :: "(string \<times> int) list" where
  "number_words =
     [(''zero'', 0), (''one'', 1), (''two'', 2), (''three'', 3), (''four'', 4), (''five'', 5),
      (''six'', 6), (''seven'', 7), (''eight'', 8), (''nine'', 9), (''ten'', 10), (''eleven'', 11),
      (''twelve'', 12), (''thirteen'', 13), (''fourteen'', 14), (''fifteen'', 15), (''sixteen'', 16),
      (''seventeen'', 17), (''eighteen'', 18), (''nineteen'', 19), (''twenty'', 20), (''thirty'', 30),
      (''forty'', 40), (''fifty'', 50), (''sixty'', 60), (''seventy'', 70), (''eighty'', 80),
      (''ninety'', 90), (''hundred'', 100), (''thousand'', 1000), (''million'', 1000000),
      (''billion'', 1000000000)]"

definition one_word_to_num :: "string \<Rightarrow> exn + pyval" where
  "one_word_to_num w =
     (if w \<noteq> [] \<and> list_all is_digit w then Inr (PInt (int (nat_of_digits w)))
      else (case map_of number_words w of Some n \<Rightarrow> Inr (PInt n) | None \<Rightarrow> Inl ValueError))"


text \<open>A label in a tag of its own, white space, and the value in the next tag.\<close>

definition genre_page :: node where
  "genre_page = Tag ''[document]'' []
     [Tag ''b'' [] [Text ''Genre:''], Text '' '', Tag ''a'' [] [Text ''Drama'']]"

text \<open>A label followed by its value in a sibling tag.\<close>

definition sibling_page :: node where
  "sibling_page = Tag ''[document]'' []
     [Tag ''td'' [] [Text ''Genre: '', Tag ''b'' [] [Text ''Drama'']], Tag ''td'' [] [Text ''PG'']]"

text \<open>A movie page with a title, a genre, a running time and a budget; and one with a
  title only.\<close>

definition movie_page :: node where
  "movie_page = Tag ''[document]'' [] [Tag ''html'' []
     [Tag ''head'' [] [Tag ''title'' [] [Text ''Avatar (2009) - Box Office Mojo'']],
      Tag ''body'' []
        [Tag ''td'' [] [Text ''Genre: '', Tag ''b'' [] [Text ''Sci-Fi Adventure'']],
         Tag ''td'' [] [Text ''Runtime: '', Tag ''b'' [] [Text ''2 hrs. 40 min.'']],
         Tag ''td'' [] [Text ''Production Budget: '', Tag ''b'' [] [Text ''$237 million'']]]]]"

definition title_page :: node where
  "title_page = Tag ''[document]'' [] [Tag ''html'' []
     [Tag ''head'' [] [Tag ''title'' [] [Text ''Avatar (2009) - Box Office Mojo'']],
      Tag ''body'' [] []]]"

text \<open>A site that answers every address with the movie page.\<close>

definition movie_site :: "string \<Rightarrow> exn + node" where
  "movie_site url = Inr movie_page"

text \<open>A site whose index pages lack the \<^verbatim>\<open>div\<close> with the links.\<close>

definition bodiless_site :: "string \<Rightarrow> exn + node" where
  "bodiless_site url = Inr title_page"

text \<open>A standard output with the encoding ASCII, as that of Python 2 is when it is not a
  terminal: a line with a character outside ASCII is refused.  And one that takes every
  line.\<close>

definition ascii_stdout :: printer where
  "ascii_stdout line = (if list_all is_ascii line then Inr () else Inl UnicodeEncodeError)"

definition utf8_stdout :: printer where
  "utf8_stdout line = Inr ()"

text \<open>References of movie pages whose name has the letter e with an acute accent (code
  \<^verbatim>\<open>0xE9\<close>), one with the query of the catalog and one without.\<close>

definition accented_url :: string where
  "accented_url = ''/movies/?id=am'' @ [CHR 0xE9] @ ''lie.htm''"

definition accented_path :: string where
  "accented_path = ''/movies/am'' @ [CHR 0xE9] @ ''lie.htm''"


section \<open>Facts about the Python layer\<close>

lemmas str_defs = py_ustrip_def py_strip_def strip_where_def is_uspace_def is_space_def
  py_lower_def lower_char_def remove_char_def py_index_def is_digit_def digit_val_def
  nat_of_digits_def unsigned_digits_def py_int_def bind_exn_def try_except_def as_string_def
  is_ascii_def py_split_ws_def

lemmas float_defs = py_float_def unsigned_float_def decimal_literal_def decimal_exponent_def
  double_of_ratio_def floor_log2_def round_half_even_def Let_def

lemma bind_exn_Inr_iff: "bind_exn m f = Inr v \<longleftrightarrow> (\<exists>x. m = Inr x \<and> f x = Inr v)"
  by (cases m) (simp_all add: bind_exn_def)





lemma py_split_no_sep: "c \<notin> set a \<Longrightarrow> py_split c a = [a]"
  by (induction a) auto




section \<open>Facts about the normalizers\<close>


lemma budget_cases: "budget_to_int x = Inr PNone \<or> (\<exists>n. budget_to_int x = Inr (PInt n))"
  unfolding budget_to_int_def try_except_def Let_def
  by (auto simp: bind_exn_def split: sum.splits)




section \<open>Facts about the locator\<close>

lemma find_filter_hd: "List.find P xs = (case filter P xs of [] \<Rightarrow> None | x # _ \<Rightarrow> Some x)"
  by (induction xs) auto

lemma find_string_none:
  "find_string pat es = None \<longleftrightarrow> (\<forall>e\<in>set es. \<not> matching pat (fst e))"
  by (induction pat es rule: find_string.induct) auto

lemma find_string_first:
  "(\<forall>e\<in>set before. \<not> matching pat (fst e)) \<Longrightarrow> s \<noteq> [] \<Longrightarrow> pat s \<Longrightarrow>
   find_string pat (before @ (Text s, sibs) # after) = Some (s, sibs, map fst after)"
proof (induction before)
  case Nil
  then show ?case by simp
next
  case (Cons e before)
  obtain n ss where e: "e = (n, ss)" by (cases e)
  from Cons show ?case by (cases n) (auto simp: e)
qed

lemma find_string_some:
  "find_string pat es = Some (s, sibs, nxt) \<Longrightarrow>
   \<exists>before after. es = before @ (Text s, sibs) # after \<and> nxt = map fst after \<and>
     (\<forall>e\<in>set before. \<not> matching pat (fst e)) \<and> s \<noteq> [] \<and> pat s"
proof (induction pat es rule: find_string.induct)
  case (1 pat)
  then show ?case by simp
next
  case (2 pat t sibs' rest)
  show ?case
  proof (cases "t \<noteq> [] \<and> pat t")
    case True
    with 2(2) have "s = t" "sibs = sibs'" "nxt = map fst rest" by auto
    with True have "(Text t, sibs') # rest = [] @ (Text s, sibs) # rest \<and> nxt = map fst rest \<and>
       (\<forall>e\<in>set []. \<not> matching pat (fst e)) \<and> s \<noteq> [] \<and> pat s" by simp
    then show ?thesis by blast
  next
    case False
    with 2 obtain before after where
      "rest = before @ (Text s, sibs) # after" "nxt = map fst after"
      "\<forall>e\<in>set before. \<not> matching pat (fst e)" "s \<noteq> []" "pat s"
      by auto
    with False have "(Text t, sibs') # rest = ((Text t, sibs') # before) @ (Text s, sibs) # after \<and> nxt = map fst after \<and>
       (\<forall>e\<in>set ((Text t, sibs') # before). \<not> matching pat (fst e)) \<and> s \<noteq> [] \<and> pat s" by auto
    then show ?thesis by blast
  qed
next
  case (3 pat n a cs sibs' rest)
  then obtain before after where
      "rest = before @ (Text s, sibs) # after" "nxt = map fst after"
      "\<forall>e\<in>set before. \<not> matching pat (fst e)" "s \<noteq> []" "pat s"
    by auto
  then have "(Tag n a cs, sibs') # rest = ((Tag n a cs, sibs') # before) @ (Text s, sibs) # after \<and> nxt = map fst after \<and>
       (\<forall>e\<in>set ((Tag n a cs, sibs') # before). \<not> matching pat (fst e)) \<and> s \<noteq> [] \<and> pat s" by auto
  then show ?case by blast
qed

lemma locate_absent:
  "(\<forall>e\<in>set (elements (children soup)). \<not> matching pat (fst e)) \<Longrightarrow>
   get_movie_value_as as soup pat = None"
  by (simp add: get_movie_value_as_def find_string_none[THEN iffD2])

lemma locate_found:
  assumes "elements (children soup) = before @ (Text s, sibs) # after"
    and "\<forall>e\<in>set before. \<not> matching pat (fst e)" and "s \<noteq> []" and "pat s"
  shows "get_movie_value_as as soup pat =
           map_option as (case first_tag sibs of Some t \<Rightarrow> Some t | None \<Rightarrow> first_tag (map fst after))"
  using find_string_first[OF assms(2,3,4), of sibs after] assms(1,3)
  by (simp add: get_movie_value_as_def first_tag_def find_filter_hd split: list.splits)

section \<open>Facts about the record\<close>

lemma get_movie_data_fields:
  assumes "get_movie_data dateutil_parse word_to_num soup = Inr d"
  shows "\<exists>rating genre distributor.
           py_str (get_movie_value soup (re_search ''MPAA Rating'')) = Inr rating \<and>
           py_str (get_movie_value soup (re_search ''Genre:'')) = Inr genre \<and>
           py_str (get_movie_value soup (re_search ''Distributor'')) = Inr distributor \<and>
           d ''rating'' = Some (PStr rating) \<and> d ''genre'' = Some (PStr genre) \<and>
           d ''distributor'' = Some (PStr distributor)"
proof -
  from assms obtain title rating genre distributor theaters budget dom intl noms wins rel clo run
      dir wri act pro where
    r: "py_str (get_movie_value soup (re_search ''MPAA Rating'')) = Inr rating"
       "py_str (get_movie_value soup (re_search ''Genre:'')) = Inr genre"
       "py_str (get_movie_value soup (re_search ''Distributor'')) = Inr distributor" and
    d: "d = map_of (zip headers
       [title, PStr rating, PStr genre, PStr distributor, theaters, budget, dom,
        intl, noms, wins, rel, clo, run, dir, wri, act, pro])"
    unfolding get_movie_data_def bind_exn_Inr_iff by blast
  from d have "d ''rating'' = Some (PStr rating) \<and> d ''genre'' = Some (PStr genre) \<and>
           d ''distributor'' = Some (PStr distributor)"
    by (simp add: headers_def)
  with r show ?thesis by blast
qed

section \<open>The crawl: one letter\<close>

lemma letter_pages_fetch_raises:
  "fetch (index_url l p) w = (Inl e, w') \<Longrightarrow> letter_pages fetch l p acc w = Some (Inl e, w')"
  by (subst letter_pages.simps) simp

lemma letter_pages_parse_raises:
  "fetch (index_url l p) w = (Inr soup, w') \<Longrightarrow> get_movies_on_page soup = Inl e \<Longrightarrow>
   letter_pages fetch l p acc w = Some (Inl e, w')"
  by (subst letter_pages.simps) simp

lemma letter_pages_no_links:
  "fetch (index_url l p) w = (Inr soup, w') \<Longrightarrow> get_movies_on_page soup = Inr [] \<Longrightarrow>
   letter_pages fetch l p acc w = Some (Inr acc, w')"
  by (subst letter_pages.simps) simp

lemma has_links_iff: "has_links r \<longleftrightarrow> (\<exists>us. r = Inr us \<and> us \<noteq> [])"
  by (cases r rule: has_links.cases) auto

lemma stops_after_alt:
  "stops_after site l p k \<longleftrightarrow>
     page_links site l (p + k) = Inr [] \<and>
     (\<forall>j<k. \<exists>us. page_links site l (p + j) = Inr us \<and> us \<noteq> [])"
  by (auto simp: stops_after_def has_links_iff)

lemma letter_pages_empty:
  "page_links site l p = Inr [] \<Longrightarrow>
   letter_pages (static_fetch site) l p acc n = Some (Inr acc, Suc n)"
  by (subst letter_pages.simps)
     (auto simp: static_fetch_def page_links_def split: sum.splits)

lemma letter_pages_more:
  "page_links site l p = Inr us \<Longrightarrow> us \<noteq> [] \<Longrightarrow>
   letter_pages (static_fetch site) l p acc n = letter_pages (static_fetch site) l (Suc p) (acc @ us) (Suc n)"
  by (subst letter_pages.simps)
     (auto simp: static_fetch_def page_links_def split: sum.splits)

lemma letter_pages_error:
  "page_links site l p = Inl e \<Longrightarrow>
   letter_pages (static_fetch site) l p acc n = Some (Inl e, Suc n)"
  by (subst letter_pages.simps)
     (auto simp: static_fetch_def page_links_def split: sum.splits)

lemma letter_pages_stops:
  "stops_after site l p k \<Longrightarrow>
   letter_pages (static_fetch site) l p acc n =
     Some (Inr (acc @ concat (map (page_urls site l) [p..<p + k])), n + k + 1)"
proof (induction k arbitrary: p acc n)
  case 0
  then show ?case by (simp add: stops_after_alt letter_pages_empty)
next
  case (Suc k)
  from Suc.prems obtain us where us: "page_links site l p = Inr us" "us \<noteq> []"
    unfolding stops_after_alt by (metis add.right_neutral zero_less_Suc)
  from Suc.prems have "stops_after site l (Suc p) k"
    unfolding stops_after_alt by (metis Suc_less_eq add_Suc_shift)
  have pu: "page_urls site l p = us"
    using us(1) by (simp add: page_urls_def)
  have upt: "[p..<p + Suc k] = p # [Suc p..<Suc p + k]"
    by (simp add: upt_conv_Cons)
  have "letter_pages (static_fetch site) l p acc n =
        letter_pages (static_fetch site) l (Suc p) (acc @ us) (Suc n)"
    using us by (rule letter_pages_more)
  also have "\<dots> = Some (Inr ((acc @ us) @ concat (map (page_urls site l) [Suc p..<Suc p + k])), Suc n + k + 1)"
    by (rule Suc.IH[OF \<open>stops_after site l (Suc p) k\<close>])
  finally show ?case
    unfolding upt using pu by (simp del: upt_Suc)
qed

lemma letter_pages_fails:
  "page_links site l (p + k) = Inl e \<Longrightarrow>
   (\<forall>j<k. \<exists>us. page_links site l (p + j) = Inr us \<and> us \<noteq> []) \<Longrightarrow>
   letter_pages (static_fetch site) l p acc n = Some (Inl e, n + k + 1)"
proof (induction k arbitrary: p acc n)
  case 0
  then show ?case by (simp add: letter_pages_error)
next
  case (Suc k)
  from Suc.prems(2) obtain us where us: "page_links site l p = Inr us" "us \<noteq> []"
    by (metis add.right_neutral zero_less_Suc)
  have a: "page_links site l (Suc p + k) = Inl e" using Suc.prems(1) by simp
  have b: "\<forall>j<k. \<exists>us. page_links site l (Suc p + j) = Inr us \<and> us \<noteq> []"
    using Suc.prems(2) by (metis Suc_less_eq add_Suc_shift)
  have "letter_pages (static_fetch site) l p acc n =
        letter_pages (static_fetch site) l (Suc p) (acc @ us) (Suc n)"
    using us by (rule letter_pages_more)
  also have "\<dots> = Some (Inl e, Suc n + k + 1)"
    by (rule Suc.IH[OF a b])
  finally show ?case by simp
qed

lemma letter_pages_returns_aux:
  assumes "letter_pages fetch l p acc n = Some r"
  shows "fetch = static_fetch site \<Longrightarrow>
    (\<exists>k. (\<forall>j<k. \<exists>us. page_links site l (p + j) = Inr us \<and> us \<noteq> []) \<and>
             (page_links site l (p + k) = Inr [] \<or> (\<exists>e. page_links site l (p + k) = Inl e)))"
  using assms
proof (induct fetch l p acc n r rule: letter_pages.raw_induct)
  case (1 lp fetch l p acc n r)
  note f = \<open>fetch = static_fetch site\<close>
  show ?case
  proof (cases "page_links site l p")
    case (Inl e)
    then have "(\<forall>j<0::nat. \<exists>us. page_links site l (p + j) = Inr us \<and> us \<noteq> []) \<and>
         (page_links site l (p + 0) = Inr [] \<or> (\<exists>e. page_links site l (p + 0) = Inl e))" by simp
    then show ?thesis by blast
  next
    case (Inr us)
    show ?thesis
    proof (cases "us = []")
      case True
      with Inr have "(\<forall>j<0::nat. \<exists>us. page_links site l (p + j) = Inr us \<and> us \<noteq> []) \<and>
         (page_links site l (p + 0) = Inr [] \<or> (\<exists>e. page_links site l (p + 0) = Inl e))" by simp
      then show ?thesis by blast
    next
      case False
      with Inr 1(2) f have step: "lp fetch l (p + 1) (acc @ us) (Suc n) = Some r"
        by (auto simp: static_fetch_def page_links_def split: sum.splits)
      have step2: "letter_pages fetch l (p + 1) (acc @ us) (Suc n) = Some r"
        using 1(4) letter_pages_more[OF Inr False, of acc n] by (simp add: f)
      from 1(1)[OF step f step2] obtain k where
        k: "\<forall>j<k. \<exists>us. page_links site l (p + 1 + j) = Inr us \<and> us \<noteq> []"
           "page_links site l (p + 1 + k) = Inr [] \<or> (\<exists>e. page_links site l (p + 1 + k) = Inl e)"
        by blast
      have "\<forall>j<Suc k. \<exists>us. page_links site l (p + j) = Inr us \<and> us \<noteq> []"
      proof (intro allI impI)
        fix j assume "j < Suc k"
        show "\<exists>us. page_links site l (p + j) = Inr us \<and> us \<noteq> []"
        proof (cases j)
          case 0
          then show ?thesis using Inr False by simp
        next
          case (Suc i)
          with \<open>j < Suc k\<close> have "i < k" by simp
          with k(1) have "\<exists>us. page_links site l (p + 1 + i) = Inr us \<and> us \<noteq> []" by blast
          then show ?thesis using Suc by simp
        qed
      qed
      moreover have "page_links site l (p + Suc k) = Inr [] \<or> (\<exists>e. page_links site l (p + Suc k) = Inl e)"
        using k(2) by simp
      ultimately show ?thesis by blast
    qed
  qed
qed (rule assms)

lemma letter_pages_diverges:
  assumes "\<forall>j. \<exists>us. page_links site l (p + j) = Inr us \<and> us \<noteq> []"
  shows "letter_pages (static_fetch site) l p acc n = None"
proof (cases "letter_pages (static_fetch site) l p acc n")
  case None then show ?thesis .
next
  case (Some r)
  from letter_pages_returns_aux[OF Some refl] obtain k where
    "page_links site l (p + k) = Inr [] \<or> (\<exists>e. page_links site l (p + k) = Inl e)" by blast
  with assms show ?thesis by (metis sum.distinct(1) sum.inject(2))
qed



section \<open>The crawl: all letters\<close>

lemma letters_loop_static:
  assumes "\<forall>l\<in>set letters. stops_after site l 1 (ks l)"
  shows "letters_loop (static_fetch site) letters acc n =
           Some (Inr (acc @ concat (map (\<lambda>l. letter_urls site l (ks l)) letters)),
                 n + sum_list (map (\<lambda>l. ks l + 1) letters))"
  using assms
proof (induction letters arbitrary: acc n)
  case Nil
  then show ?case by simp
next
  case (Cons l ls)
  have "stops_after site l 1 (ks l)" using Cons.prems by simp
  from letter_pages_stops[OF this, of acc n]
  have lp: "letter_pages (static_fetch site) l 1 acc n =
          Some (Inr (acc @ letter_urls site l (ks l)), n + ks l + 1)"
    by (simp add: letter_urls_def)
  have "\<forall>l\<in>set ls. stops_after site l 1 (ks l)" using Cons.prems by simp
  from Cons.IH[OF this, of "acc @ letter_urls site l (ks l)" "n + ks l + 1"] lp
  show ?case by (simp add: add.assoc)
qed

lemma letter_pages_normal_return:
  assumes "letter_pages (static_fetch site) l p acc n = Some (Inr urls, n')"
  shows "\<exists>k. stops_after site l p k"
proof -
  from letter_pages_returns_aux[OF assms refl] obtain k where
    pre: "\<forall>j<k. \<exists>us. page_links site l (p + j) = Inr us \<and> us \<noteq> []" and
    fin: "page_links site l (p + k) = Inr [] \<or> (\<exists>e. page_links site l (p + k) = Inl e)"
    by blast
  from fin show ?thesis
  proof
    assume "page_links site l (p + k) = Inr []"
    with pre show ?thesis unfolding stops_after_alt by blast
  next
    assume "\<exists>e. page_links site l (p + k) = Inl e"
    then obtain e where "page_links site l (p + k) = Inl e" ..
    from letter_pages_fails[OF this pre, of acc n] assms show ?thesis by simp
  qed
qed

lemma letters_loop_normal_return:
  "letters_loop (static_fetch site) letters acc n = Some (Inr urls, n') \<Longrightarrow>
   \<forall>l\<in>set letters. \<exists>k. stops_after site l 1 k"
proof (induction letters arbitrary: acc n)
  case Nil
  then show ?case by simp
next
  case (Cons l ls)
  from Cons.prems obtain urls1 n1 where
    a: "letter_pages (static_fetch site) l 1 acc n = Some (Inr urls1, n1)" and
    b: "letters_loop (static_fetch site) ls urls1 n1 = Some (Inr urls, n')"
    by (auto split: option.splits sum.splits prod.splits)
  from letter_pages_normal_return[OF a] Cons.IH[OF b] show ?case by simp
qed

lemma letters_loop_fails:
  assumes "\<forall>l'\<in>set pre. stops_after site l' 1 (ks l')"
    and "page_links site l (1 + k) = Inl e"
    and "\<forall>j<k. \<exists>us. page_links site l (1 + j) = Inr us \<and> us \<noteq> []"
  shows "letters_loop (static_fetch site) (pre @ l # rest) acc n =
           Some (Inl e, n + sum_list (map (\<lambda>l'. ks l' + 1) pre) + k + 1)"
  using assms(1)
proof (induction pre arbitrary: acc n)
  case Nil
  from letter_pages_fails[OF assms(2,3), of acc n] show ?case by simp
next
  case (Cons a pre)
  have "stops_after site a 1 (ks a)" using Cons.prems by simp
  from letter_pages_stops[OF this, of acc n]
  have lp: "letter_pages (static_fetch site) a 1 acc n =
          Some (Inr (acc @ letter_urls site a (ks a)), n + ks a + 1)"
    by (simp add: letter_urls_def)
  have "\<forall>l\<in>set pre. stops_after site l 1 (ks l)" using Cons.prems by simp
  from Cons.IH[OF this, of "acc @ letter_urls site a (ks a)" "n + ks a + 1"] lp
  show ?case by (simp add: add.assoc)
qed

lemma letters_loop_diverges:
  assumes "endless site l"
  shows "letters_loop (static_fetch site) (l # rest) acc n = None"
proof -
  have "\<forall>j. \<exists>us. page_links site l (1 + j) = Inr us \<and> us \<noteq> []"
    using assms by (simp add: endless_def has_links_iff)
  from letter_pages_diverges[OF this, of acc n] show ?thesis by simp
qed

lemma letters_loop_endless_letter:
  assumes "\<forall>l'\<in>set pre. \<exists>k. stops_after site l' 1 k" and "endless site l"
  shows "letters_loop (static_fetch site) (pre @ l # rest) acc n = None"
  using assms(1)
proof (induction pre arbitrary: acc n)
  case Nil
  from letters_loop_diverges[OF assms(2)] show ?case by simp
next
  case (Cons a pre)
  from Cons.prems obtain k where "stops_after site a 1 k" by auto
  from letter_pages_stops[OF this, of acc n]
  have lp: "letter_pages (static_fetch site) a 1 acc n =
          Some (Inr (acc @ letter_urls site a k), n + k + 1)"
    by (simp add: letter_urls_def)
  have "\<forall>l'\<in>set pre. \<exists>k. stops_after site l' 1 k" using Cons.prems by simp
  from Cons.IH[OF this, of "acc @ letter_urls site a k" "n + k + 1"] lp
  show ?case by simp
qed


section \<open>Claims about the locator\<close>

lemmas locator_defs = get_movie_value_def get_movie_value_people_def get_movie_value_as_def
  re_search_def get_text_def descendants_def

lemma genre_page_elements:
  "elements (children genre_page) =
     [(Tag ''b'' [] [Text ''Genre:''], [Text '' '', Tag ''a'' [] [Text ''Drama'']]),
      (Text ''Genre:'', []),
      (Text '' '', [Tag ''a'' [] [Text ''Drama'']]),
      (Tag ''a'' [] [Text ''Drama''], []),
      (Text ''Drama'', [])]"
  by (simp add: genre_page_def)

text \<open>
  C5, as stated, fails where the node next to the label is a text node.  In the page
  \<^verbatim>\<open><b>Genre:</b> <a>Drama</a>\<close> the label has no sibling, and the next node in document
  order is the text node with the space between the two tags.  The locator does not
  return that node or its text: it returns the tag after it.
\<close>

theorem locator_skips_text_nodes:
  "find_string (re_search ''Genre:'') (elements (children genre_page)) =
     Some (''Genre:'', [], [Text '' '', Tag ''a'' [] [Text ''Drama''], Text ''Drama'']) \<and>
   get_movie_value genre_page (re_search ''Genre:'') = Some ''Drama'' \<and>
   get_movie_value_people genre_page (re_search ''Genre:'') = Some (Tag ''a'' [] [Text ''Drama''])"
  by (simp add: genre_page_elements re_search_def get_movie_value_def get_movie_value_people_def
      get_movie_value_as_def get_text_def descendants_def)

text \<open>
  C5, amended: for every document and field-label pattern, the locator returns absent
  when no text node matches the pattern.  When some text node matches, it takes the first
  one in document order and looks for the first tag among that node's later siblings
  or, if there is none, for the first tag among the nodes after it in document order,
  text nodes being passed over in both searches.  It returns that tag itself in
  multi-entity mode and its flattened text in scalar mode, and absent if no such tag
  exists.  (A text node matches when the pattern is found in it; the text nodes of a
  parsed page are never empty, and an empty one is passed over.)
\<close>

theorem locator_returns_next_tag:
  "((\<forall>e\<in>set (elements (children soup)). \<not> matching pat (fst e)) \<longrightarrow>
      get_movie_value soup pat = None \<and> get_movie_value_people soup pat = None) \<and>
   (elements (children soup) = before @ (Text s, sibs) # after \<and>
    (\<forall>e\<in>set before. \<not> matching pat (fst e)) \<and> matching pat (Text s) \<longrightarrow>
      get_movie_value_people soup pat =
        (case first_tag sibs of Some t \<Rightarrow> Some t | None \<Rightarrow> first_tag (map fst after)) \<and>
      get_movie_value soup pat =
        map_option get_text
          (case first_tag sibs of Some t \<Rightarrow> Some t | None \<Rightarrow> first_tag (map fst after))) \<and>
   ((\<exists>e\<in>set (elements (children soup)). matching pat (fst e)) \<longrightarrow>
      (\<exists>before s sibs after. elements (children soup) = before @ (Text s, sibs) # after \<and>
         (\<forall>e\<in>set before. \<not> matching pat (fst e)) \<and> matching pat (Text s)))"
proof (intro conjI impI)
  assume "\<forall>e\<in>set (elements (children soup)). \<not> matching pat (fst e)"
  then show "get_movie_value soup pat = None" "get_movie_value_people soup pat = None"
    by (simp_all add: get_movie_value_def get_movie_value_people_def locate_absent)
next
  assume a: "elements (children soup) = before @ (Text s, sibs) # after \<and>
    (\<forall>e\<in>set before. \<not> matching pat (fst e)) \<and> matching pat (Text s)"
  then have e: "elements (children soup) = before @ (Text s, sibs) # after"
    and b: "\<forall>e\<in>set before. \<not> matching pat (fst e)" and s: "s \<noteq> []" "pat s"
    by simp_all
  from locate_found[OF e b s, of "\<lambda>t. t"]
  show "get_movie_value_people soup pat =
        (case first_tag sibs of Some t \<Rightarrow> Some t | None \<Rightarrow> first_tag (map fst after))"
    by (simp add: get_movie_value_people_def option.map_ident)
  from locate_found[OF e b s, of get_text]
  show "get_movie_value soup pat =
        map_option get_text
          (case first_tag sibs of Some t \<Rightarrow> Some t | None \<Rightarrow> first_tag (map fst after))"
    by (simp add: get_movie_value_def)
next
  assume "\<exists>e\<in>set (elements (children soup)). matching pat (fst e)"
  then have "find_string pat (elements (children soup)) \<noteq> None"
    by (simp add: find_string_none)
  then obtain s sibs nxt where "find_string pat (elements (children soup)) = Some (s, sibs, nxt)"
    by (cases "find_string pat (elements (children soup))") auto
  from find_string_some[OF this]
  show "\<exists>before s sibs after. elements (children soup) = before @ (Text s, sibs) # after \<and>
         (\<forall>e\<in>set before. \<not> matching pat (fst e)) \<and> matching pat (Text s)"
    by auto
qed

theorem locator_returns_next_tag_witness:
  "get_movie_value sibling_page (re_search ''Genre:'') = Some ''Drama'' \<and>
   get_movie_value_people sibling_page (re_search ''Genre:'') = Some (Tag ''b'' [] [Text ''Drama'']) \<and>
   get_movie_value sibling_page (re_search ''Runtime'') = None \<and>
   get_movie_value_people sibling_page (re_search ''Runtime'') = None"
proof -
  have el: "elements (children sibling_page) =
     [(Tag ''td'' [] [Text ''Genre: '', Tag ''b'' [] [Text ''Drama'']], [Tag ''td'' [] [Text ''PG'']])] @
     (Text ''Genre: '', [Tag ''b'' [] [Text ''Drama'']]) #
     [(Tag ''b'' [] [Text ''Drama''], []), (Text ''Drama'', []),
      (Tag ''td'' [] [Text ''PG''], []), (Text ''PG'', [])]"
    by (simp add: sibling_page_def)
  have found: "elements (children sibling_page) =
     [(Tag ''td'' [] [Text ''Genre: '', Tag ''b'' [] [Text ''Drama'']], [Tag ''td'' [] [Text ''PG'']])] @
     (Text ''Genre: '', [Tag ''b'' [] [Text ''Drama'']]) #
     [(Tag ''b'' [] [Text ''Drama''], []), (Text ''Drama'', []),
      (Tag ''td'' [] [Text ''PG''], []), (Text ''PG'', [])] \<and>
     (\<forall>e\<in>set [(Tag ''td'' [] [Text ''Genre: '', Tag ''b'' [] [Text ''Drama'']], [Tag ''td'' [] [Text ''PG'']])].
        \<not> matching (re_search ''Genre:'') (fst e)) \<and>
     matching (re_search ''Genre:'') (Text ''Genre: '')"
    using el by (simp add: re_search_def)
  have none: "\<forall>e\<in>set (elements (children sibling_page)). \<not> matching (re_search ''Runtime'') (fst e)"
    unfolding el by (simp add: re_search_def)
  from locator_returns_next_tag
    [of sibling_page "re_search ''Genre:''"
        "[(Tag ''td'' [] [Text ''Genre: '', Tag ''b'' [] [Text ''Drama'']], [Tag ''td'' [] [Text ''PG'']])]"
        "''Genre: ''" "[Tag ''b'' [] [Text ''Drama'']]"
        "[(Tag ''b'' [] [Text ''Drama''], []), (Text ''Drama'', []),
          (Tag ''td'' [] [Text ''PG''], []), (Text ''PG'', [])]"] found
  have g: "get_movie_value sibling_page (re_search ''Genre:'') = Some ''Drama''"
    "get_movie_value_people sibling_page (re_search ''Genre:'') = Some (Tag ''b'' [] [Text ''Drama''])"
    by (simp_all add: first_tag_def get_text_def descendants_def)
  from locator_returns_next_tag[of sibling_page "re_search ''Runtime''"] none
  have r: "get_movie_value sibling_page (re_search ''Runtime'') = None"
    "get_movie_value_people sibling_page (re_search ''Runtime'') = None"
    by blast+
  from g r show ?thesis by simp
qed

section \<open>Claims about the normalizers\<close>








text \<open>
  C6: every normalizer returns for every raw value, a string or \<^verbatim>\<open>None\<close> (for the list
  of people: a tag or \<^verbatim>\<open>None\<close>), whatever the date parser and the word converter do,
  and never raises: the result is a value of the field's type or \<^verbatim>\<open>None\<close>, and for the
  two award counts the converter's number or 0.  The inputs \<^verbatim>\<open>None\<close>, the empty string
  and \<^verbatim>\<open>N/A\<close> give \<^verbatim>\<open>None\<close> for the numeric fields and 0 for the award counts; the title
  of \<^verbatim>\<open>N/A\<close> is \<^verbatim>\<open>N/A\<close>.
\<close>

theorem normalizers_never_raise:
  "(clean_title x = Inr PNone \<or> (\<exists>t. clean_title x = Inr (PStr t))) \<and>
   (to_date dateutil_parse x = Inr PNone \<or> (\<exists>d. to_date dateutil_parse x = Inr (PDate d))) \<and>
   (money_to_int x = Inr PNone \<or> (\<exists>n. money_to_int x = Inr (PInt n))) \<and>
   (budget_to_int x = Inr PNone \<or> (\<exists>n. budget_to_int x = Inr (PInt n))) \<and>
   (people_to_list t = Inr PNone \<or> (\<exists>names. people_to_list t = Inr (PList names))) \<and>
   (noms_from_oscars w2n x = Inr (PInt 0) \<or> (\<exists>word v. w2n word = Inr v \<and> noms_from_oscars w2n x = Inr v)) \<and>
   (wins_from_oscars w2n x = Inr (PInt 0) \<or> (\<exists>word v. w2n word = Inr v \<and> wins_from_oscars w2n x = Inr v)) \<and>
   (theaters_to_int x = Inr PNone \<or> (\<exists>n. theaters_to_int x = Inr (PInt n))) \<and>
   (runtime_to_minutes x = Inr PNone \<or> (\<exists>n. runtime_to_minutes x = Inr (PInt n))) \<and>
   clean_title None = Inr PNone \<and> clean_title (Some '''') = Inr (PStr '''') \<and>
   clean_title (Some ''N/A'') = Inr (PStr ''N/A'') \<and>
   to_date dateutil_parse None = Inr PNone \<and> people_to_list None = Inr PNone \<and>
   money_to_int None = Inr PNone \<and> money_to_int (Some '''') = Inr PNone \<and>
   money_to_int (Some ''N/A'') = Inr PNone \<and>
   budget_to_int None = Inr PNone \<and> budget_to_int (Some '''') = Inr PNone \<and>
   budget_to_int (Some ''N/A'') = Inr PNone \<and>
   noms_from_oscars w2n None = Inr (PInt 0) \<and> noms_from_oscars w2n (Some '''') = Inr (PInt 0) \<and>
   noms_from_oscars w2n (Some ''N/A'') = Inr (PInt 0) \<and>
   wins_from_oscars w2n None = Inr (PInt 0) \<and> wins_from_oscars w2n (Some '''') = Inr (PInt 0) \<and>
   wins_from_oscars w2n (Some ''N/A'') = Inr (PInt 0) \<and>
   theaters_to_int None = Inr PNone \<and> theaters_to_int (Some '''') = Inr PNone \<and>
   theaters_to_int (Some ''N/A'') = Inr PNone \<and>
   runtime_to_minutes None = Inr PNone \<and> runtime_to_minutes (Some '''') = Inr PNone \<and>
   runtime_to_minutes (Some ''N/A'') = Inr PNone"
proof (intro conjI)
  show "clean_title x = Inr PNone \<or> (\<exists>t. clean_title x = Inr (PStr t))"
    unfolding clean_title_def try_except_def by (auto simp: bind_exn_def split: sum.splits)
  show "to_date dateutil_parse x = Inr PNone \<or> (\<exists>d. to_date dateutil_parse x = Inr (PDate d))"
    unfolding to_date_def try_except_def by (auto simp: bind_exn_def split: sum.splits)
  show "money_to_int x = Inr PNone \<or> (\<exists>n. money_to_int x = Inr (PInt n))"
    unfolding money_to_int_def try_except_def by (auto simp: bind_exn_def split: sum.splits)
  show "budget_to_int x = Inr PNone \<or> (\<exists>n. budget_to_int x = Inr (PInt n))"
    by (rule budget_cases)
  show "people_to_list t = Inr PNone \<or> (\<exists>names. people_to_list t = Inr (PList names))"
    unfolding people_to_list_def try_except_def
    by (auto simp: bind_exn_def split: sum.splits option.splits)
  show "noms_from_oscars w2n x = Inr (PInt 0) \<or>
        (\<exists>word v. w2n word = Inr v \<and> noms_from_oscars w2n x = Inr v)"
    unfolding noms_from_oscars_def try_except_def Let_def
    by (auto simp: bind_exn_def split: sum.splits)
  show "wins_from_oscars w2n x = Inr (PInt 0) \<or>
        (\<exists>word v. w2n word = Inr v \<and> wins_from_oscars w2n x = Inr v)"
    unfolding wins_from_oscars_def try_except_def Let_def
    by (auto simp: bind_exn_def split: sum.splits)
  show "theaters_to_int x = Inr PNone \<or> (\<exists>n. theaters_to_int x = Inr (PInt n))"
    unfolding theaters_to_int_def try_except_def by (auto simp: bind_exn_def split: sum.splits)
  show "runtime_to_minutes x = Inr PNone \<or> (\<exists>n. runtime_to_minutes x = Inr (PInt n))"
    unfolding runtime_to_minutes_def try_except_def Let_def
    by (auto simp: bind_exn_def split: sum.splits)
  show "clean_title None = Inr PNone" "clean_title (Some '''') = Inr (PStr '''')"
    "clean_title (Some ''N/A'') = Inr (PStr ''N/A'')"
    by (simp_all add: clean_title_def str_defs)
  show "to_date dateutil_parse None = Inr PNone"
    by (simp add: to_date_def str_defs)
  show "people_to_list None = Inr PNone"
    by (simp add: people_to_list_def)
  show "money_to_int None = Inr PNone" "money_to_int (Some '''') = Inr PNone"
    "money_to_int (Some ''N/A'') = Inr PNone"
    by (simp_all add: money_to_int_def str_defs)
  show "budget_to_int None = Inr PNone" "budget_to_int (Some '''') = Inr PNone"
    "budget_to_int (Some ''N/A'') = Inr PNone"
    by (simp_all add: budget_to_int_def float_defs str_defs)
  show "noms_from_oscars w2n None = Inr (PInt 0)" "noms_from_oscars w2n (Some '''') = Inr (PInt 0)"
    "noms_from_oscars w2n (Some ''N/A'') = Inr (PInt 0)"
    by (simp_all add: noms_from_oscars_def str_defs)
  show "wins_from_oscars w2n None = Inr (PInt 0)" "wins_from_oscars w2n (Some '''') = Inr (PInt 0)"
    "wins_from_oscars w2n (Some ''N/A'') = Inr (PInt 0)"
    by (simp_all add: wins_from_oscars_def str_defs)
  show "theaters_to_int None = Inr PNone" "theaters_to_int (Some '''') = Inr PNone"
    "theaters_to_int (Some ''N/A'') = Inr PNone"
    by (simp_all add: theaters_to_int_def str_defs)
  show "runtime_to_minutes None = Inr PNone" "runtime_to_minutes (Some '''') = Inr PNone"
    "runtime_to_minutes (Some ''N/A'') = Inr PNone"
    by (simp_all add: runtime_to_minutes_def str_defs)
qed



section \<open>Claims about the record\<close>

lemmas normalizer_defs = clean_title_def theaters_to_int_def budget_to_int_def money_to_int_def
  noms_from_oscars_def wins_from_oscars_def to_date_def runtime_to_minutes_def people_to_list_def
  stripped_strings_def find_name_def vals_dict_def dict_get_def

lemma title_page_data:
  "get_movie_data reject_dates one_word_to_num title_page =
     Inr (map_of (zip headers
       [PStr ''Avatar'', PStr ''None'', PStr ''None'', PStr ''None'', PNone, PNone, PNone, PNone,
        PInt 0, PInt 0, PNone, PNone, PNone, PNone, PNone, PNone, PNone]))"
  by (simp add: get_movie_data_def title_page_def locator_defs normalizer_defs str_defs)

lemma title_page_elements:
  "elements (children title_page) =
     [(Tag ''html'' []
        [Tag ''head'' [] [Tag ''title'' [] [Text ''Avatar (2009) - Box Office Mojo'']],
         Tag ''body'' [] []], []),
      (Tag ''head'' [] [Tag ''title'' [] [Text ''Avatar (2009) - Box Office Mojo'']],
        [Tag ''body'' [] []]),
      (Tag ''title'' [] [Text ''Avatar (2009) - Box Office Mojo''], []),
      (Text ''Avatar (2009) - Box Office Mojo'', []),
      (Tag ''body'' [] [], [])]"
  by (simp add: title_page_def)

lemma movie_page_data:
  "get_movie_data reject_dates one_word_to_num movie_page =
     Inr (map_of (zip headers
       [PStr ''Avatar'', PStr ''None'', PStr ''Sci-Fi Adventure'', PStr ''None'', PNone,
        PInt 237000000, PNone, PNone, PInt 0, PInt 0, PNone, PNone, PInt 160,
        PNone, PNone, PNone, PNone]))"
  by (simp add: get_movie_data_def movie_page_def locator_defs normalizer_defs float_defs str_defs)

text \<open>
  C9: when no text node of the page matches the label of the rating, the genre or the
  distributor, the record of the page holds the four-letter string \<^verbatim>\<open>None\<close> under that
  field, not the value \<^verbatim>\<open>None\<close>: the raw value goes through \<^verbatim>\<open>str\<close>, and the locator's
  \<^verbatim>\<open>None\<close> becomes text.
\<close>

theorem absent_labels_give_the_string_None:
  "((\<forall>e\<in>set (elements (children soup)). \<not> matching (re_search ''MPAA Rating'') (fst e)) \<and>
    get_movie_data dateutil_parse w2n soup = Inr d \<longrightarrow> d ''rating'' = Some (PStr ''None'')) \<and>
   ((\<forall>e\<in>set (elements (children soup)). \<not> matching (re_search ''Genre:'') (fst e)) \<and>
    get_movie_data dateutil_parse w2n soup = Inr d \<longrightarrow> d ''genre'' = Some (PStr ''None'')) \<and>
   ((\<forall>e\<in>set (elements (children soup)). \<not> matching (re_search ''Distributor'') (fst e)) \<and>
    get_movie_data dateutil_parse w2n soup = Inr d \<longrightarrow> d ''distributor'' = Some (PStr ''None''))"
proof (intro conjI impI)
  assume a: "(\<forall>e\<in>set (elements (children soup)). \<not> matching (re_search ''MPAA Rating'') (fst e)) \<and>
    get_movie_data dateutil_parse w2n soup = Inr d"
  then have "get_movie_value soup (re_search ''MPAA Rating'') = None"
    by (simp add: get_movie_value_def locate_absent)
  with get_movie_data_fields[of dateutil_parse w2n soup d] a
  show "d ''rating'' = Some (PStr ''None'')" by auto
next
  assume a: "(\<forall>e\<in>set (elements (children soup)). \<not> matching (re_search ''Genre:'') (fst e)) \<and>
    get_movie_data dateutil_parse w2n soup = Inr d"
  then have "get_movie_value soup (re_search ''Genre:'') = None"
    by (simp add: get_movie_value_def locate_absent)
  with get_movie_data_fields[of dateutil_parse w2n soup d] a
  show "d ''genre'' = Some (PStr ''None'')" by auto
next
  assume a: "(\<forall>e\<in>set (elements (children soup)). \<not> matching (re_search ''Distributor'') (fst e)) \<and>
    get_movie_data dateutil_parse w2n soup = Inr d"
  then have "get_movie_value soup (re_search ''Distributor'') = None"
    by (simp add: get_movie_value_def locate_absent)
  with get_movie_data_fields[of dateutil_parse w2n soup d] a
  show "d ''distributor'' = Some (PStr ''None'')" by auto
qed

theorem absent_labels_give_the_string_None_witness:
  "\<exists>d. get_movie_data reject_dates one_word_to_num title_page = Inr d \<and>
     d ''rating'' = Some (PStr ''None'') \<and> d ''genre'' = Some (PStr ''None'') \<and>
     d ''distributor'' = Some (PStr ''None'')"
proof -
  obtain d where d: "get_movie_data reject_dates one_word_to_num title_page = Inr d"
    using title_page_data by blast
  have "\<forall>e\<in>set (elements (children title_page)). \<not> matching (re_search ''MPAA Rating'') (fst e)"
    "\<forall>e\<in>set (elements (children title_page)). \<not> matching (re_search ''Genre:'') (fst e)"
    "\<forall>e\<in>set (elements (children title_page)). \<not> matching (re_search ''Distributor'') (fst e)"
    unfolding title_page_elements by (simp_all add: re_search_def)
  with absent_labels_give_the_string_None[of title_page reject_dates one_word_to_num d] d
  have "d ''rating'' = Some (PStr ''None'') \<and> d ''genre'' = Some (PStr ''None'') \<and>
     d ''distributor'' = Some (PStr ''None'')"
    by blast
  with d show ?thesis by blast
qed

section \<open>Claims about the crawl\<close>

lemma link_page_links: "get_movies_on_page link_page = Inr [''/movies/?id=avatar.htm'']"
  by (simp add: get_movies_on_page_def link_page_def find_name_def find_id_def find_all_name_def descendants_def)

lemma empty_page_links: "get_movies_on_page empty_page = Inr []"
  by (simp add: get_movies_on_page_def empty_page_def find_name_def find_id_def find_all_name_def descendants_def)

lemma index_url_A1: "index_url ''A'' (Suc 0) = ''http://www.boxofficemojo.com/movies/alphabetical.htm?letter=A&page=1''"
  by (simp add: index_url_def digit_char_def)

lemma index_url_A2: "index_url ''A'' (Suc (Suc 0)) = ''http://www.boxofficemojo.com/movies/alphabetical.htm?letter=A&page=2''"
  by (simp add: index_url_def digit_char_def)

lemma index_url_B1: "index_url ''B'' (Suc 0) = ''http://www.boxofficemojo.com/movies/alphabetical.htm?letter=B&page=1''"
  by (simp add: index_url_def digit_char_def)

lemma index_url_B2: "index_url ''B'' (Suc (Suc 0)) = ''http://www.boxofficemojo.com/movies/alphabetical.htm?letter=B&page=2''"
  by (simp add: index_url_def digit_char_def)

lemma index_url_A2': "index_url ''A'' 2 = ''http://www.boxofficemojo.com/movies/alphabetical.htm?letter=A&page=2''"
  by (simp add: index_url_def digit_char_def)

lemma index_url_B2': "index_url ''B'' 2 = ''http://www.boxofficemojo.com/movies/alphabetical.htm?letter=B&page=2''"
  by (simp add: index_url_def digit_char_def)

lemmas index_urls = index_url_A1 index_url_A2 index_url_B1 index_url_B2 index_url_A2' index_url_B2'

lemma small_site_pages:
  "page_links small_site ''A'' (Suc 0) = Inr [''/movies/?id=avatar.htm'']"
  "page_links small_site ''A'' (Suc (Suc 0)) = Inr []"
  "page_links small_site ''B'' (Suc 0) = Inr []"
  by (simp_all add: page_links_def small_site_def index_urls link_page_links empty_page_links)

lemma small_site_stops:
  "\<forall>l\<in>set [''A'', ''B'']. stops_after small_site l 1 (if l = ''A'' then 1 else 0)"
  using small_site_pages by (simp add: stops_after_def)

text \<open>
  C1, as stated, fails: the crawl does not terminate for every catalog.  On a catalog whose
  every index page carries a movie link the \<^verbatim>\<open>while True\<close> loop of the letter
  never reaches its \<^verbatim>\<open>break\<close>, and the function returns nothing.
\<close>

theorem crawl_endless_site_never_returns:
  "get_movies_from_letters (static_fetch endless_site) [''A''] 0 = None"
proof -
  have "endless endless_site ''A''"
    by (simp add: endless_def page_links_def endless_site_def link_page_links)
  then show ?thesis
    unfolding get_movies_from_letters_def by (rule letters_loop_diverges)
qed

text \<open>
  C1, amended: over a fixed catalog, when every letter of the list has a first index page
  without movie links, reached through pages that were fetched and parsed without an
  exception and that carry links (\<open>ks l\<close> such pages for letter \<open>l\<close>), the crawl
  returns: its result is the links of exactly those pages, letter by letter, and it has
  made \<open>ks l + 1\<close> requests for letter \<open>l\<close>, so that paging stops at the first page
  without links.  A letter whose first page has no links (\<open>ks l = 0\<close>) costs one request,
  adds no URL, raises nothing, and the crawl goes on with the next letter.  Conversely the
  crawl returns a list only if every letter has such a page: no other condition ends the
  paging of a letter normally.  When the crawl reaches a letter whose every page carries
  links, it never returns.  On any network, a letter whose first page is fetched and
  has no links leaves the list of addresses as it was, and the loop goes on with the
  letters that remain.
\<close>

theorem crawl_returns_iff_letters_run_out:
  "((\<forall>l\<in>set letter_list. stops_after site l 1 (ks l)) \<longrightarrow>
      get_movies_from_letters (static_fetch site) letter_list n =
        Some (Inr (concat (map (\<lambda>l. letter_urls site l (ks l)) letter_list)),
              n + sum_list (map (\<lambda>l. ks l + 1) letter_list))) \<and>
   ((\<exists>urls n'. get_movies_from_letters (static_fetch site) letter_list n = Some (Inr urls, n')) \<longrightarrow>
      (\<forall>l\<in>set letter_list. \<exists>k. stops_after site l 1 k)) \<and>
   ((\<forall>l\<in>set before. \<exists>k. stops_after site l 1 k) \<and> endless site letter \<longrightarrow>
      get_movies_from_letters (static_fetch site) (before @ letter # rest) n = None) \<and>
   (fetch (index_url letter 1) w = (Inr soup, w') \<and> get_movies_on_page soup = Inr [] \<longrightarrow>
      letters_loop fetch (letter # rest) urls w = letters_loop fetch rest urls w')"
proof (intro conjI impI)
  assume "\<forall>l\<in>set letter_list. stops_after site l 1 (ks l)"
  from letters_loop_static[OF this, of "[]" n]
  show "get_movies_from_letters (static_fetch site) letter_list n =
        Some (Inr (concat (map (\<lambda>l. letter_urls site l (ks l)) letter_list)),
              n + sum_list (map (\<lambda>l. ks l + 1) letter_list))"
    by (simp add: get_movies_from_letters_def)
next
  assume "\<exists>urls n'. get_movies_from_letters (static_fetch site) letter_list n = Some (Inr urls, n')"
  then obtain urls n' where
    "letters_loop (static_fetch site) letter_list [] n = Some (Inr urls, n')"
    by (auto simp: get_movies_from_letters_def)
  then show "\<forall>l\<in>set letter_list. \<exists>k. stops_after site l 1 k"
    by (rule letters_loop_normal_return)
next
  assume "(\<forall>l\<in>set before. \<exists>k. stops_after site l 1 k) \<and> endless site letter"
  then show "get_movies_from_letters (static_fetch site) (before @ letter # rest) n = None"
    unfolding get_movies_from_letters_def by (simp add: letters_loop_endless_letter)
next
  assume "fetch (index_url letter 1) w = (Inr soup, w') \<and> get_movies_on_page soup = Inr []"
  then have "letter_pages fetch letter 1 urls w = Some (Inr urls, w')"
    by (simp add: letter_pages_no_links)
  then show "letters_loop fetch (letter # rest) urls w = letters_loop fetch rest urls w'"
    by simp
qed

theorem crawl_returns_iff_letters_run_out_witness:
  "get_movies_from_letters (static_fetch small_site) [''A'', ''B''] 0 =
     Some (Inr [''/movies/?id=avatar.htm''], 3) \<and>
   (\<exists>k. stops_after small_site ''A'' 1 k) \<and> (\<exists>k. stops_after small_site ''B'' 1 k) \<and>
   get_movies_from_letters (static_fetch endless_site) [''A'', ''B'', ''C''] 0 = None \<and>
   letters_loop (static_fetch small_site) [''B''] [''/movies/?id=avatar.htm''] 2 =
     Some (Inr [''/movies/?id=avatar.htm''], 3)"
proof -
  note small = crawl_returns_iff_letters_run_out
    [of "[''A'', ''B'']" small_site "\<lambda>l. if l = ''A'' then 1 else 0" 0 "[]" "''B''" "[]"
        "static_fetch small_site" 2 empty_page 3 "[''/movies/?id=avatar.htm'']"]
  from mp[OF small[THEN conjunct1] small_site_stops]
  have r: "get_movies_from_letters (static_fetch small_site) [''A'', ''B''] 0 =
     Some (Inr [''/movies/?id=avatar.htm''], 3)"
    by (simp add: letter_urls_def page_urls_def small_site_pages)
  then have "\<exists>urls n'. get_movies_from_letters (static_fetch small_site) [''A'', ''B''] 0 =
     Some (Inr urls, n')"
    by blast
  from mp[OF small[THEN conjunct2, THEN conjunct1] this]
  have s: "(\<exists>k. stops_after small_site ''A'' 1 k) \<and> (\<exists>k. stops_after small_site ''B'' 1 k)"
    by simp
  have f: "static_fetch small_site (index_url ''B'' 1) 2 = (Inr empty_page, 3) \<and>
      get_movies_on_page empty_page = Inr []"
    by (simp add: static_fetch_def small_site_def index_urls empty_page_links)
  from mp[OF small[THEN conjunct2, THEN conjunct2, THEN conjunct2] f]
  have l: "letters_loop (static_fetch small_site) [''B''] [''/movies/?id=avatar.htm''] 2 =
     Some (Inr [''/movies/?id=avatar.htm''], 3)"
    by simp
  note endl = crawl_returns_iff_letters_run_out
    [of "[]" endless_site "\<lambda>l. 0" 0 "[]" "''A''" "[''B'', ''C'']"]
  have e: "(\<forall>l\<in>set []. \<exists>k. stops_after endless_site l 1 k) \<and> endless endless_site ''A''"
    by (simp add: endless_def page_links_def endless_site_def link_page_links)
  from mp[OF endl[THEN conjunct2, THEN conjunct2, THEN conjunct1] e]
  have d: "get_movies_from_letters (static_fetch endless_site) [''A'', ''B'', ''C''] 0 = None"
    by simp
  from r s d l show ?thesis by blast
qed




text \<open>
  C4, as stated, fails: nothing in the crawl retries.  When the first request fails and
  every later one would succeed, the crawl ends with the exception after that single
  request.
\<close>

theorem crawl_does_not_retry:
  "get_movies_from_letters flaky_fetch [''A''] 0 = Some (Inl RequestException, 1)"
  by (simp add: get_movies_from_letters_def letter_pages.simps flaky_fetch_def)

text \<open>
  C4, amended: an index page whose fetch or parse raises is not taken for a page without
  links.  The exception leaves the crawl at once: when the letters before \<open>l\<close> have run
  out normally and page \<open>k + 1\<close> of \<open>l\<close> raises \<open>e\<close> after \<open>k\<close> pages with links, the
  whole crawl ends with \<open>e\<close> and returns no list, after exactly one request for every
  page visited: the failing page is requested once, and neither a later page nor a later
  letter is requested.  On any network, an exception of the fetch or of the parse of a
  page ends the loop of the letter and the loop over the letters with that exception, in
  the state of the world that the one request left.
\<close>

theorem crawl_failure_aborts:
  "((\<forall>l'\<in>set pre. stops_after site l' 1 (ks l')) \<and>
    page_links site l (1 + k) = Inl e \<and>
    (\<forall>j\<in>{0..<k}. has_links (page_links site l (1 + j))) \<longrightarrow>
      get_movies_from_letters (static_fetch site) (pre @ l # rest) n =
        Some (Inl e, n + sum_list (map (\<lambda>l'. ks l' + 1) pre) + k + 1)) \<and>
   (fetch (index_url l p) w = (Inl e, w') \<longrightarrow>
      letter_pages fetch l p urls w = Some (Inl e, w')) \<and>
   (fetch (index_url l p) w = (Inr soup, w') \<and> get_movies_on_page soup = Inl e \<longrightarrow>
      letter_pages fetch l p urls w = Some (Inl e, w')) \<and>
   (letter_pages fetch l 1 urls w = Some (Inl e, w') \<longrightarrow>
      letters_loop fetch (l # rest) urls w = Some (Inl e, w'))"
proof (intro conjI impI, elim conjE)
  assume a: "\<forall>l'\<in>set pre. stops_after site l' 1 (ks l')"
    and b: "page_links site l (1 + k) = Inl e"
    and c: "\<forall>j\<in>{0..<k}. has_links (page_links site l (1 + j))"
  from c have c': "\<forall>j<k. \<exists>us. page_links site l (1 + j) = Inr us \<and> us \<noteq> []"
    by (simp add: has_links_iff)
  from letters_loop_fails[OF a b c', of rest "[]" n]
  show "get_movies_from_letters (static_fetch site) (pre @ l # rest) n =
       Some (Inl e, n + sum_list (map (\<lambda>l'. ks l' + 1) pre) + k + 1)"
    by (simp add: get_movies_from_letters_def)
next
  assume "fetch (index_url l p) w = (Inl e, w')"
  then show "letter_pages fetch l p urls w = Some (Inl e, w')"
    by (rule letter_pages_fetch_raises)
next
  assume "fetch (index_url l p) w = (Inr soup, w') \<and> get_movies_on_page soup = Inl e"
  then show "letter_pages fetch l p urls w = Some (Inl e, w')"
    by (simp add: letter_pages_parse_raises)
next
  assume "letter_pages fetch l 1 urls w = Some (Inl e, w')"
  then show "letters_loop fetch (l # rest) urls w = Some (Inl e, w')"
    by simp
qed

theorem crawl_failure_aborts_witness:
  "get_movies_from_letters (static_fetch broken_site) [''A'', ''B'', ''C''] 0 =
     Some (Inl RequestException, 3) \<and>
   letters_loop flaky_fetch [''A'', ''B''] [] 0 = Some (Inl RequestException, 1) \<and>
   letters_loop (static_fetch bodiless_site) [''A'', ''B''] [] 0 = Some (Inl AttributeError, 1)"
proof -
  have pages:
    "page_links broken_site ''A'' (Suc 0) = Inr []"
    "page_links broken_site ''B'' (Suc 0) = Inr [''/movies/?id=avatar.htm'']"
    "page_links broken_site ''B'' (Suc (Suc 0)) = Inl RequestException"
    by (simp_all add: page_links_def broken_site_def index_urls link_page_links empty_page_links)
  then have h: "(\<forall>l'\<in>set [''A'']. stops_after broken_site l' 1 ((\<lambda>l. 0) l')) \<and>
     page_links broken_site ''B'' (1 + 1) = Inl RequestException \<and>
     (\<forall>j\<in>{0..<1}. has_links (page_links broken_site ''B'' (1 + j)))"
    by (simp add: stops_after_def)
  note broken = crawl_failure_aborts
    [of "[''A'']" broken_site "\<lambda>l. 0" "''B''" 1 RequestException "[''C'']" 0]
  from mp[OF broken[THEN conjunct1] h]
  have one: "get_movies_from_letters (static_fetch broken_site) [''A'', ''B'', ''C''] 0 =
     Some (Inl RequestException, 3)"
    by simp
  note flaky = crawl_failure_aborts
    [of "[]" broken_site "\<lambda>l. 0" "''A''" 0 RequestException "[''B'']" 0 flaky_fetch 1 0 1 "[]"]
  have f: "flaky_fetch (index_url ''A'' 1) 0 = (Inl RequestException, 1)"
    by (simp add: flaky_fetch_def)
  from mp[OF flaky[THEN conjunct2, THEN conjunct1] f]
  have "letter_pages flaky_fetch ''A'' 1 [] 0 = Some (Inl RequestException, 1)" .
  from mp[OF flaky[THEN conjunct2, THEN conjunct2, THEN conjunct2] this]
  have two: "letters_loop flaky_fetch [''A'', ''B''] [] 0 = Some (Inl RequestException, 1)" .
  note bodiless = crawl_failure_aborts
    [of "[]" broken_site "\<lambda>l. 0" "''A''" 0 AttributeError "[''B'']" 0
        "static_fetch bodiless_site" 1 0 1 "[]" title_page]
  have g: "static_fetch bodiless_site (index_url ''A'' 1) 0 = (Inr title_page, 1) \<and>
      get_movies_on_page title_page = Inl AttributeError"
    by (simp add: static_fetch_def bodiless_site_def get_movies_on_page_def title_page_def
        find_name_def find_id_def descendants_def)
  from mp[OF bodiless[THEN conjunct2, THEN conjunct2, THEN conjunct1] g]
  have "letter_pages (static_fetch bodiless_site) ''A'' 1 [] 0 = Some (Inl AttributeError, 1)" .
  from mp[OF bodiless[THEN conjunct2, THEN conjunct2, THEN conjunct2] this]
  have three: "letters_loop (static_fetch bodiless_site) [''A'', ''B''] [] 0 =
     Some (Inl AttributeError, 1)" .
  from one two three show ?thesis by blast
qed

section \<open>Claims about the processing of the list\<close>

lemma movies_loop_results:
  "prints_return stdout urls (movie_results fetch p w2n urls w) \<Longrightarrow>
   fst (movies_loop fetch stdout p w2n urls all_movie_data failed_urls w) =
     Inr (all_movie_data @ records_of (movie_results fetch p w2n urls w),
          failed_urls @ failures_of urls (movie_results fetch p w2n urls w))"
proof (induction urls arbitrary: all_movie_data failed_urls w)
  case Nil
  then show ?case by simp
next
  case (Cons movie rest)
  obtain page w' where f: "fetch (movie_url movie) w = (page, w')"
    by (cases "fetch (movie_url movie) w")
  show ?case
  proof (cases "movie_entry p w2n movie page")
    case (Inl e)
    with f Cons.prems have pr: "stdout (''error processing url: '' @ movie_url movie) = Inr ()"
      "stdout (''processed: '' @ movie_url movie) = Inr ()"
      "prints_return stdout rest (movie_results fetch p w2n rest w')"
      by (simp_all add: prints_return_def)
    with Inl f Cons.IH[of w' all_movie_data "failed_urls @ [movie_url movie]"] show ?thesis
      by (simp add: bind_exn_def)
  next
    case (Inr data_dict)
    with f Cons.prems have pr: "stdout (''processed: '' @ movie_url movie) = Inr ()"
      "prints_return stdout rest (movie_results fetch p w2n rest w')"
      by (simp_all add: prints_return_def)
    with Inr f Cons.IH[of w' "all_movie_data @ [data_dict]" failed_urls] show ?thesis
      by simp
  qed
qed

lemma movies_loop_raises:
  "\<not> prints_return stdout urls (movie_results fetch p w2n urls w) \<Longrightarrow>
   \<exists>e. fst (movies_loop fetch stdout p w2n urls all_movie_data failed_urls w) = Inl e"
proof (induction urls arbitrary: all_movie_data failed_urls w)
  case Nil
  then show ?case by (simp add: prints_return_def)
next
  case (Cons movie rest)
  obtain page w' where f: "fetch (movie_url movie) w = (page, w')"
    by (cases "fetch (movie_url movie) w")
  show ?case
  proof (cases "movie_entry p w2n movie page")
    case (Inl e)
    show ?thesis
    proof (cases "stdout (''error processing url: '' @ movie_url movie)")
      case l1: (Inl e1)
      with Inl f show ?thesis by (simp add: bind_exn_def)
    next
      case r1: (Inr u1)
      show ?thesis
      proof (cases "stdout (''processed: '' @ movie_url movie)")
        case l2: (Inl e2)
        with Inl f r1 show ?thesis by (simp add: bind_exn_def)
      next
        case r2: (Inr u2)
        with Inl f r1 Cons.prems
        have "\<not> prints_return stdout rest (movie_results fetch p w2n rest w')"
          by (simp add: prints_return_def)
        from Cons.IH[OF this, of all_movie_data "failed_urls @ [movie_url movie]"] Inl f r1 r2
        show ?thesis by (simp add: bind_exn_def)
      qed
    qed
  next
    case (Inr data_dict)
    show ?thesis
    proof (cases "stdout (''processed: '' @ movie_url movie)")
      case l2: (Inl e2)
      with Inr f show ?thesis by simp
    next
      case r2: (Inr u2)
      with Inr f Cons.prems
      have "\<not> prints_return stdout rest (movie_results fetch p w2n rest w')"
        by (simp add: prints_return_def)
      from Cons.IH[OF this, of "all_movie_data @ [data_dict]" failed_urls] Inr f r2
      show ?thesis by simp
    qed
  qed
qed

lemma movie_results_length: "length (movie_results fetch p w2n urls w) = length urls"
  by (induction urls arbitrary: w) (auto split: prod.splits)

lemma outcome_lengths:
  "length rs = length urls \<Longrightarrow> length (records_of rs) + length (failures_of urls rs) = length urls"
  by (induction urls rs rule: failures_of.induct) auto

text \<open>
  The function returns its two lists exactly when the standard output takes every line
  that the loop writes, and it ends with an exception otherwise.  When it returns, every
  entry of the list has one outcome, a dictionary or an exception caught by the bare
  \<^verbatim>\<open>except\<close>; the dictionaries, in order, are the list of records, the addresses of the
  entries with an exception, in order, are the list of failures, and the two lengths add
  up to the length of the input.
\<close>

lemma get_all_movie_data_returns_iff:
  "(\<exists>lists. fst (get_all_movie_data fetch stdout dateutil_parse w2n url_list w) = Inr lists) \<longleftrightarrow>
   prints_return stdout url_list (movie_results fetch dateutil_parse w2n url_list w)"
proof (cases "prints_return stdout url_list (movie_results fetch dateutil_parse w2n url_list w)")
  case True
  from movies_loop_results[OF this, of "[]" "[]"] True show ?thesis
    by (simp add: get_all_movie_data_def)
next
  case False
  from movies_loop_raises[OF this, of "[]" "[]"] False show ?thesis
    by (auto simp add: get_all_movie_data_def)
qed

lemma every_url_is_a_record_or_a_failure:
  assumes "prints_return stdout url_list (movie_results fetch dateutil_parse w2n url_list w)"
  shows "fst (get_all_movie_data fetch stdout dateutil_parse w2n url_list w) =
     Inr (records_of (movie_results fetch dateutil_parse w2n url_list w),
          failures_of url_list (movie_results fetch dateutil_parse w2n url_list w))"
    and "length (records_of (movie_results fetch dateutil_parse w2n url_list w)) +
         length (failures_of url_list (movie_results fetch dateutil_parse w2n url_list w)) =
         length url_list"
  unfolding get_all_movie_data_def
  using movies_loop_results[OF assms, of "[]" "[]"] outcome_lengths[OF movie_results_length]
  by simp_all

lemma accented_entry:
  "movie_entry reject_dates one_word_to_num accented_url (Inr movie_page) =
     Inr ((map_of (zip headers
       [PStr ''Avatar'', PStr ''None'', PStr ''Sci-Fi Adventure'', PStr ''None'', PNone,
        PInt 237000000, PNone, PNone, PInt 0, PInt 0, PNone, PNone, PInt 160,
        PNone, PNone, PNone, PNone]))(''url'' \<mapsto> PStr (''am'' @ [CHR 0xE9] @ ''lie.htm'')))"
  unfolding movie_entry_def
  by (simp add: movie_page_data bind_exn_def accented_url_def py_index_def)

lemma movie_entry_no_reference:
  "CHR ''='' \<notin> set movie \<Longrightarrow> \<exists>e. movie_entry p w2n movie page = Inl e"
  by (cases page; cases "get_movie_data p w2n (projr page)")
     (simp_all add: movie_entry_def bind_exn_def py_split_no_sep py_index_def)

text \<open>
  C8: the loop does not complete every list.  The bare \<^verbatim>\<open>except\<close> catches every exception
  of the fetch, of the assembly and of the reference extraction, but the \<^verbatim>\<open>print\<close> after
  the \<^verbatim>\<open>try\<close> statement is outside of it, and the \<^verbatim>\<open>print\<close> of the handler comes before
  the address is appended to the failures.  On a standard output with the encoding ASCII
  the list of the reference \<open>accented_url\<close> (its name has the letter e with an acute accent)
  and a second reference ends with \<^verbatim>\<open>UnicodeEncodeError\<close> after the first request: the page
  was fetched and its record assembled, the second reference is never requested, and
  neither list is returned.  The same holds for a reference without \<^verbatim>\<open>=\<close>, whose
  exception is caught and whose handler then raises before it records the failure.  On a
  standard output that takes every line, the same list gives two records.
\<close>

theorem print_of_accented_url_ends_the_loop:
  "get_all_movie_data (static_fetch movie_site) ascii_stdout reject_dates one_word_to_num
     [accented_url, ''/movies/?id=avatar.htm''] 0 = (Inl UnicodeEncodeError, 1) \<and>
   get_all_movie_data (static_fetch movie_site) ascii_stdout reject_dates one_word_to_num
     [accented_path, ''/movies/?id=avatar.htm''] 0 = (Inl UnicodeEncodeError, 1) \<and>
   (\<exists>first second.
      get_all_movie_data (static_fetch movie_site) utf8_stdout reject_dates one_word_to_num
        [accented_url, ''/movies/?id=avatar.htm''] 0 = (Inr ([first, second], []), 2))"
proof (intro conjI)
  show "get_all_movie_data (static_fetch movie_site) ascii_stdout reject_dates one_word_to_num
     [accented_url, ''/movies/?id=avatar.htm''] 0 = (Inl UnicodeEncodeError, 1)"
    by (simp add: get_all_movie_data_def static_fetch_def movie_site_def accented_entry)
       (simp add: ascii_stdout_def accented_url_def movie_url_def is_ascii_def)
  have "CHR ''='' \<notin> set accented_path"
    by (simp add: accented_path_def)
  from movie_entry_no_reference[OF this, of reject_dates one_word_to_num "Inr movie_page"]
  obtain e where "movie_entry reject_dates one_word_to_num accented_path (Inr movie_page) = Inl e" ..
  then show "get_all_movie_data (static_fetch movie_site) ascii_stdout reject_dates one_word_to_num
     [accented_path, ''/movies/?id=avatar.htm''] 0 = (Inl UnicodeEncodeError, 1)"
    by (simp add: get_all_movie_data_def static_fetch_def movie_site_def bind_exn_def)
       (simp add: ascii_stdout_def accented_path_def movie_url_def is_ascii_def)
  have "\<exists>d. movie_entry reject_dates one_word_to_num ''/movies/?id=avatar.htm'' (Inr movie_page) = Inr d"
    unfolding movie_entry_def
    by (simp add: movie_page_data bind_exn_def py_index_def)
  then obtain d where
    "movie_entry reject_dates one_word_to_num ''/movies/?id=avatar.htm'' (Inr movie_page) = Inr d" ..
  then show "\<exists>first second.
      get_all_movie_data (static_fetch movie_site) utf8_stdout reject_dates one_word_to_num
        [accented_url, ''/movies/?id=avatar.htm''] 0 = (Inr ([first, second], []), 2)"
    by (simp add: get_all_movie_data_def static_fetch_def movie_site_def accented_entry
                  utf8_stdout_def)
qed

lemma failures_of_member:
  "movie \<in> set urls \<Longrightarrow> CHR ''='' \<notin> set movie \<Longrightarrow>
   movie_url movie \<in> set (failures_of urls (movie_results fetch p w2n urls w))"
proof (induction urls arbitrary: w)
  case Nil
  then show ?case by simp
next
  case (Cons m rest)
  obtain page w' where f: "fetch (movie_url m) w = (page, w')"
    by (cases "fetch (movie_url m) w")
  show ?case
  proof (cases "m = movie")
    case True
    from movie_entry_no_reference[OF Cons.prems(2), of p w2n page] obtain e
      where "movie_entry p w2n movie page = Inl e" ..
    with True f show ?thesis by simp
  next
    case False
    with Cons.prems have "movie \<in> set rest" by simp
    from Cons.IH[OF this Cons.prems(2), of w'] f show ?thesis
      by (cases "movie_entry p w2n m page") simp_all
  qed
qed

text \<open>
  C10: an address without the character \<^verbatim>\<open>=\<close> ends in the list of failures whatever the
  fetch and the assembly give, also when both succeed: \<^verbatim>\<open>movie.split("=")[1]\<close> is inside
  the \<^verbatim>\<open>try\<close>, its \<^verbatim>\<open>IndexError\<close> is caught with the rest, and the dictionary that was
  assembled is dropped.  The handler prints its line before it records the failure, and
  the loop prints a line for every entry: the statement is for a standard output that
  takes the lines written (both lines of the address for the list of one entry, every
  line of the run for a longer list), and then the function returns its lists with the
  address among the failures.
\<close>

theorem url_without_equals_sign_fails:
  "CHR ''='' \<notin> set movie \<longrightarrow>
     (\<exists>e. movie_entry dateutil_parse w2n movie page = Inl e) \<and>
     (stdout (''error processing url: '' @ movie_url movie) = Inr () \<and>
      stdout (''processed: '' @ movie_url movie) = Inr () \<longrightarrow>
        get_all_movie_data fetch stdout dateutil_parse w2n [movie] w =
          (Inr ([], [movie_url movie]), snd (fetch (movie_url movie) w))) \<and>
     (movie \<in> set url_list \<and>
      prints_return stdout url_list (movie_results fetch dateutil_parse w2n url_list w) \<longrightarrow>
        (\<exists>records failures.
           fst (get_all_movie_data fetch stdout dateutil_parse w2n url_list w) = Inr (records, failures) \<and>
           movie_url movie \<in> set failures))"
proof (intro impI conjI)
  assume a: "CHR ''='' \<notin> set movie"
  show "\<exists>e. movie_entry dateutil_parse w2n movie page = Inl e"
    using a by (rule movie_entry_no_reference)
next
  assume a: "CHR ''='' \<notin> set movie"
    and pr: "stdout (''error processing url: '' @ movie_url movie) = Inr () \<and>
      stdout (''processed: '' @ movie_url movie) = Inr ()"
  obtain pg w' where f: "fetch (movie_url movie) w = (pg, w')"
    by (cases "fetch (movie_url movie) w")
  from movie_entry_no_reference[OF a, of dateutil_parse w2n pg] obtain e
    where "movie_entry dateutil_parse w2n movie pg = Inl e" ..
  with f pr show "get_all_movie_data fetch stdout dateutil_parse w2n [movie] w =
       (Inr ([], [movie_url movie]), snd (fetch (movie_url movie) w))"
    by (simp add: get_all_movie_data_def bind_exn_def)
next
  assume a: "CHR ''='' \<notin> set movie"
    and m: "movie \<in> set url_list \<and>
      prints_return stdout url_list (movie_results fetch dateutil_parse w2n url_list w)"
  have "fst (get_all_movie_data fetch stdout dateutil_parse w2n url_list w) =
     Inr (records_of (movie_results fetch dateutil_parse w2n url_list w),
          failures_of url_list (movie_results fetch dateutil_parse w2n url_list w))"
    by (rule every_url_is_a_record_or_a_failure(1)[OF m[THEN conjunct2]])
  with failures_of_member[of movie url_list fetch dateutil_parse w2n w] m a
  show "\<exists>records failures.
           fst (get_all_movie_data fetch stdout dateutil_parse w2n url_list w) = Inr (records, failures) \<and>
           movie_url movie \<in> set failures"
    by blast
qed

theorem url_without_equals_sign_fails_witness:
  "(\<exists>d. get_movie_data reject_dates one_word_to_num movie_page = Inr d) \<and>
   get_all_movie_data (static_fetch movie_site) ascii_stdout reject_dates one_word_to_num
     [''/movies/avatar.htm''] 0 =
     (Inr ([], [''http://www.boxofficemojo.com/movies/avatar.htm'']), 1)"
proof -
  have a: "CHR ''='' \<notin> set ''/movies/avatar.htm''" by simp
  have pr: "ascii_stdout (''error processing url: '' @ movie_url ''/movies/avatar.htm'') = Inr () \<and>
      ascii_stdout (''processed: '' @ movie_url ''/movies/avatar.htm'') = Inr ()"
    by (simp add: ascii_stdout_def movie_url_def is_ascii_def)
  note inst = mp[OF url_without_equals_sign_fails
    [of "''/movies/avatar.htm''" reject_dates one_word_to_num "Inr movie_page" ascii_stdout
        "static_fetch movie_site" 0 "[]"] a]
  from mp[OF inst[THEN conjunct2, THEN conjunct1] pr]
  have "get_all_movie_data (static_fetch movie_site) ascii_stdout reject_dates one_word_to_num
     [''/movies/avatar.htm''] 0 =
     (Inr ([], [''http://www.boxofficemojo.com/movies/avatar.htm'']), 1)"
    by (simp add: movie_url_def static_fetch_def)
  with movie_page_data show ?thesis by simp
qed

end
